theory Spec2Isabelle
  imports Main
begin

section \<open>JSON values of a request body\<close>

text \<open>
  The handlers of \<open>controllers/userController.js\<close> read \<open>req.body\<close>, the JSON object
  that \<open>bodyParser.json()\<close> produced. A JSON value is null, a boolean, a number, a
  string, an array or an object; a key that is absent reads as \<open>undefined\<close>, which is
  \<open>None\<close> of \<open>jsval option\<close> here. A number is written as an integer that is zero exactly
  when the number is: the handlers only test a number for being zero, or hand it to
  the database driver. An object is the list of its key/value pairs in
  insertion order, the order \<open>for (const key in obj)\<close> and \<open>Object.keys\<close> follow for
  the keys these handlers accept; an object has no key twice.

  A string is held as its UTF-8 bytes, as the request body carries it and as SQLite
  stores a \<open>TEXT\<close>; JavaScript sees the UTF-16 code units of it, given by \<open>units\<close>
  below. Strings with an unpaired surrogate have no UTF-8 form and are not represented.
\<close>

datatype jsval =
    JNull
  | JBool bool
  | JNum int
  | JStr string
  | JArr "jsval list"
  | JObj "(string \<times> jsval) list"

type_synonym jsobject = "(string \<times> jsval) list"

datatype js_error = TypeError

text \<open>\<open>obj.key\<close>: the value of an own key, \<open>undefined\<close> when the key is absent.\<close>

definition get_prop :: "jsobject \<Rightarrow> string \<Rightarrow> jsval option" where
  "get_prop obj k = map_of obj k"

text \<open>\<open>Object.keys(obj)\<close>.\<close>

definition keys :: "jsobject \<Rightarrow> string list" where
  "keys obj = map fst obj"

text \<open>\<open>obj.key = v\<close> on a plain object: overwrite in place, or append a new key.\<close>

fun set_prop :: "jsobject \<Rightarrow> string \<Rightarrow> jsval \<Rightarrow> jsobject" where
  "set_prop [] k v = [(k, v)]"
| "set_prop ((k', v') # obj) k v =
     (if k' = k then (k, v) # obj else (k', v') # set_prop obj k v)"

text \<open>The truth value JavaScript gives a value in \<open>if (x)\<close>, \<open>!x\<close> and \<open>&&\<close>.\<close>

fun truthy :: "jsval option \<Rightarrow> bool" where
  "truthy None = False"
| "truthy (Some JNull) = False"
| "truthy (Some (JBool b)) = b"
| "truthy (Some (JNum n)) = (n \<noteq> 0)"
| "truthy (Some (JStr s)) = (s \<noteq> [])"
| "truthy (Some (JArr xs)) = True"
| "truthy (Some (JObj kvs)) = True"

section \<open>Strings\<close>

subsection \<open>UTF-8 bytes and UTF-16 code units\<close>

text \<open>
  \<open>units s\<close> are the UTF-16 code units JavaScript sees for the string whose UTF-8
  bytes are \<open>s\<close>: one unit for a character below U+10000, a surrogate pair above. A
  byte that starts no well-formed sequence reads as U+FFFD. \<open>bytes\<close> goes back from
  code units to UTF-8.
\<close>

definition is_cont :: "char \<Rightarrow> bool" where
  "is_cont c = (128 \<le> (of_char c :: nat) \<and> (of_char c :: nat) < 192)"

definition utf16 :: "nat \<Rightarrow> nat list" where
  "utf16 cp =
     (if cp < 65536 then [cp]
      else [55296 + (cp - 65536) div 1024, 56320 + (cp - 65536) mod 1024])"

text \<open>The number of continuation bytes that follow the lead byte \<open>x\<close>.\<close>

definition seq_len :: "nat \<Rightarrow> nat" where
  "seq_len x =
     (if 194 \<le> x \<and> x < 224 then 1
      else if 224 \<le> x \<and> x < 240 then 2
      else if 240 \<le> x \<and> x < 245 then 3
      else 0)"

text \<open>The code point of the lead byte \<open>x\<close> and its continuation bytes \<open>t\<close>.\<close>

definition seq_value :: "nat \<Rightarrow> string \<Rightarrow> nat" where
  "seq_value x t =
     foldl (\<lambda>v c. v * 64 + (of_char c - 128))
       (x - (if x < 224 then 192 else if x < 240 then 224 else 240)) t"

text \<open>
  A well-formed sequence: the right number of continuation bytes, no overlong form, no
  surrogate, nothing above U+10FFFF.
\<close>

definition seq_ok :: "nat \<Rightarrow> string \<Rightarrow> bool" where
  "seq_ok x t =
     (0 < seq_len x \<and> length t = seq_len x \<and> list_all is_cont t \<and>
      (if seq_len x = 2
       then 2048 \<le> seq_value x t \<and> (seq_value x t < 55296 \<or> 57344 \<le> seq_value x t)
       else if seq_len x = 3 then 65536 \<le> seq_value x t \<and> seq_value x t < 1114112
       else True))"

function units :: "string \<Rightarrow> nat list" where
  "units [] = []"
| "units (a # s) =
     (let x = of_char a; t = take (seq_len x) s in
      if x < 128 then x # units s
      else if seq_ok x t then utf16 (seq_value x t) @ units (drop (seq_len x) s)
      else 65533 # units s)"
  by pat_completeness auto
termination
  by (relation "measure length") auto

definition utf8 :: "nat \<Rightarrow> string" where
  "utf8 cp =
     (if cp < 128 then [char_of cp]
      else if cp < 2048 then [char_of (192 + cp div 64), char_of (128 + cp mod 64)]
      else if cp < 65536
      then [char_of (224 + cp div 4096), char_of (128 + cp div 64 mod 64),
            char_of (128 + cp mod 64)]
      else [char_of (240 + cp div 262144), char_of (128 + cp div 4096 mod 64),
            char_of (128 + cp div 64 mod 64), char_of (128 + cp mod 64)])"

definition surrogate :: "nat \<Rightarrow> bool" where
  "surrogate u = (55296 \<le> u \<and> u < 57344)"

fun bytes :: "nat list \<Rightarrow> string" where
  "bytes [] = []"
| "bytes [u] = utf8 (if surrogate u then 65533 else u)"
| "bytes (u # v # us) =
     (if 55296 \<le> u \<and> u < 56320 \<and> 56320 \<le> v \<and> v < 57344
      then utf8 (65536 + (u - 55296) * 1024 + (v - 56320)) @ bytes us
      else utf8 (if surrogate u then 65533 else u) @ bytes (v # us))"

subsection \<open>String helpers of the validators\<close>

definition is_digit :: "char \<Rightarrow> bool" where
  "is_digit c = (c \<in> set ''0123456789'')"

definition is_upper :: "char \<Rightarrow> bool" where
  "is_upper c = (c \<in> set ''ABCDEFGHIJKLMNOPQRSTUVWXYZ'')"

text \<open>
  What \<open>String.prototype.trim\<close> strips, as code units: the white space of
  ECMAScript (TAB, VT, FF, SPACE, NO-BREAK SPACE U+00A0, U+FEFF and the other space
  separators U+1680, U+2000 to U+200A, U+202F, U+205F, U+3000) and its line
  terminators (LF, CR, U+2028, U+2029).
\<close>

definition is_space :: "nat \<Rightarrow> bool" where
  "is_space u =
     (u \<in> set [9, 10, 11, 12, 13, 32, 160, 5760, 8192, 8193, 8194, 8195, 8196, 8197, 8198,
                8199, 8200, 8201, 8202, 8232, 8233, 8239, 8287, 12288, 65279])"

text \<open>\<open>s.trim()\<close>, on the code units of \<open>s\<close>.\<close>

definition trim :: "nat list \<Rightarrow> nat list" where
  "trim us = rev (dropWhile is_space (rev (dropWhile is_space us)))"

text \<open>
  \<open>s.replace(/\\D/g, '')\<close>: delete every code unit that is not one of 0 to 9. In UTF-8
  these are the bytes that are not one of 0 to 9.
\<close>

definition strip_non_digits :: "string \<Rightarrow> string" where
  "strip_non_digits s = filter is_digit s"

text \<open>
  \<open>s.slice(-10)\<close> of a string of digits: the last ten characters, the whole string
  when it is shorter.
\<close>

definition slice_last10 :: "string \<Rightarrow> string" where
  "slice_last10 s = drop (length s - 10) s"

text \<open>\<open>mob_num.replace(/\\D/g, '').slice(-10)\<close>, as all four handlers write it.\<close>

definition format_mob :: "string \<Rightarrow> string" where
  "format_mob s = slice_last10 (strip_non_digits s)"

text \<open>
  The upper-case form of a code unit, for the characters whose upper-case form is made
  of the letters A to Z: the letters a to z, sharp s (U+00DF, to SS), dotless i (U+0131,
  to I), long s (U+017F, to S) and the ligatures U+FB00 to U+FB06 (to FF, FI, FL, FFI,
  FFL, ST, ST). The upper-case form of every other character holds a code unit that is
  neither a letter A to Z nor a digit; such a code unit is written unchanged here, so
  that it stays outside A to Z and 0 to 9. The test of the PAN pattern on
  \<open>pan_num.toUpperCase()\<close>, and the string returned when the test succeeds, are
  therefore those of the code.
\<close>

definition upper_unit :: "nat \<Rightarrow> nat list" where
  "upper_unit u =
     (if 97 \<le> u \<and> u \<le> 122 then [u - 32]
      else if u = 223 then [83, 83]
      else if u = 305 then [73]
      else if u = 383 then [83]
      else if u = 64256 then [70, 70]
      else if u = 64257 then [70, 73]
      else if u = 64258 then [70, 76]
      else if u = 64259 then [70, 70, 73]
      else if u = 64260 then [70, 70, 76]
      else if u = 64261 \<or> u = 64262 then [83, 84]
      else [u])"

definition toUpperCase :: "string \<Rightarrow> string" where
  "toUpperCase s = bytes (concat (map upper_unit (units s)))"

text \<open>\<open>/^[A-Z]{5}[0-9]{4}[A-Z]{1}$/.test(s)\<close>.\<close>

definition panRegex_test :: "string \<Rightarrow> bool" where
  "panRegex_test s =
     (length s = 10 \<and> list_all is_upper (take 5 s) \<and>
      list_all is_digit (take 4 (drop 5 s)) \<and> list_all is_upper (drop 9 s))"

section \<open>Validators\<close>

text \<open>\<open>checkMissingKeys\<close>: the required keys that are not \<open>in\<close> the body.\<close>

definition checkMissingKeys :: "jsobject \<Rightarrow> string list \<Rightarrow> string list" where
  "checkMissingKeys body requiredKeys = filter (\<lambda>key. get_prop body key = None) requiredKeys"

text \<open>
  The object \<open>validateUser\<close> returns: \<open>{isValid: false, message}\<close> or
  \<open>{isValid: true, message, mob_num, pan_num}\<close>.
\<close>

datatype validation = Invalid string | Valid string string

text \<open>
  \<open>validateUser\<close>. Calling \<open>replace\<close> or \<open>toUpperCase\<close> on a value that is not a
  string (null, undefined, a number, a boolean, an array, an object) throws a
  \<open>TypeError\<close>.
\<close>

definition validateUser ::
  "jsval option \<Rightarrow> jsval option \<Rightarrow> jsval option \<Rightarrow> js_error + validation" where
  "validateUser full_name mob_num pan_num =
     (if \<not> truthy full_name \<or>
         (case full_name of Some (JStr f) \<Rightarrow> length (trim (units f)) = 0 | _ \<Rightarrow> True)
      then Inr (Invalid ''Full name must not be empty.'')
      else case mob_num of
        Some (JStr m) \<Rightarrow>
          (let formattedMobNum = format_mob m in
           if length formattedMobNum \<noteq> 10
           then Inr (Invalid ''Mobile number must be a valid 10-digit number.'')
           else case pan_num of
             Some (JStr p) \<Rightarrow>
               (let formattedPanNum = toUpperCase p in
                if \<not> panRegex_test formattedPanNum
                then Inr (Invalid ''PAN number is not a valid format.'')
                else Inr (Valid formattedMobNum formattedPanNum))
           | _ \<Rightarrow> Inl TypeError)
      | _ \<Rightarrow> Inl TypeError)"

text \<open>
  The object \<open>validateUpdate\<close> returns: \<open>{isValid: false, message}\<close> or
  \<open>{isValid: true, message, validatedData}\<close>.
\<close>

datatype update_validation = UInvalid string | UValid jsobject

definition validKeys :: "string list" where
  "validKeys = [''full_name'', ''mob_num'', ''pan_num'', ''manager_id'']"

text \<open>
  The \<open>for (const key in updateData)\<close> loop of \<open>validateUpdate\<close>: the keys still to
  visit and the \<open>validatedData\<close> built so far.
\<close>

fun validateUpdate_loop ::
  "jsobject \<Rightarrow> string list \<Rightarrow> jsobject \<Rightarrow> js_error + update_validation" where
  "validateUpdate_loop updateData [] validatedData =
     (if length (keys validatedData) = 0
      then Inr (UInvalid ''No valid fields provided for update.'')
      else Inr (UValid validatedData))"
| "validateUpdate_loop updateData (key # rest) validatedData =
     (if key \<notin> set validKeys
      then Inr (UInvalid (''Invalid key for update: '' @ key @ ''.''))
      else if key = ''full_name'' then
        (case get_prop updateData ''full_name'' of
           Some (JStr f) \<Rightarrow>
             (if length (trim (units f)) = 0
              then Inr (UInvalid ''Full name must not be empty.'')
              else validateUpdate_loop updateData rest
                     (set_prop validatedData ''full_name'' (JStr f)))
         | _ \<Rightarrow> Inr (UInvalid ''Full name must not be empty.''))
      else if key = ''mob_num'' then
        (case get_prop updateData ''mob_num'' of
           Some (JStr m) \<Rightarrow>
             (let formattedMobNum = format_mob m in
              if length formattedMobNum \<noteq> 10
              then Inr (UInvalid ''Mobile number must be a valid 10-digit number.'')
              else validateUpdate_loop updateData rest
                     (set_prop validatedData ''mob_num'' (JStr formattedMobNum)))
         | _ \<Rightarrow> Inl TypeError)
      else if key = ''pan_num'' then
        (case get_prop updateData ''pan_num'' of
           Some (JStr p) \<Rightarrow>
             (let formattedPanNum = toUpperCase p in
              if \<not> panRegex_test formattedPanNum
              then Inr (UInvalid ''PAN number is not a valid format.'')
              else validateUpdate_loop updateData rest
                     (set_prop validatedData ''pan_num'' (JStr formattedPanNum)))
         | _ \<Rightarrow> Inl TypeError)
      else
        (case get_prop updateData ''manager_id'' of
           Some v \<Rightarrow> validateUpdate_loop updateData rest
                      (set_prop validatedData ''manager_id'' v)
         | None \<Rightarrow> validateUpdate_loop updateData rest validatedData))"

definition validateUpdate :: "jsobject \<Rightarrow> js_error + update_validation" where
  "validateUpdate updateData = validateUpdate_loop updateData (keys updateData) []"

section \<open>The store\<close>

text \<open>
  The two tables that \<open>initDatabase\<close> of \<open>database/database.js\<close> creates. Every
  column is \<open>NOT NULL\<close>; the identifiers, names, numbers and timestamps are
  \<open>TEXT\<close>, \<open>is_active\<close> is an \<open>INTEGER\<close> (1 for active, 0 for inactive). A table
  is the list of its rows in insertion order.
\<close>

record manager_row =
  m_manager_id :: string
  manager_name :: string
  m_is_active :: int

record user_row =
  user_id :: string
  full_name :: string
  mob_num :: string
  pan_num :: string
  manager_id :: string
  created_at :: string
  updated_at :: string
  is_active :: int

record store =
  managers :: "manager_row list"
  users :: "user_row list"

text \<open>
  What a handler takes from outside the source: the identifier the next \<open>uuidv4()\<close>
  returns, the first and the second reading of the clock
  (\<open>new Date().toISOString()\<close>), and the text that the database driver and the
  \<open>TEXT\<close> affinity of a column make of a bound parameter that is neither a string nor
  null (\<open>None\<close> when it binds as \<open>NULL\<close>).
\<close>

record env =
  uuid :: string
  now :: string
  now2 :: string
  bind_other :: "jsval option \<Rightarrow> string option"

datatype sqlval = SNull | SText string | SInt int

datatype sql_error = SQLITE_CONSTRAINT

text \<open>A JavaScript value bound to a \<open>?\<close> that is compared with or stored in a \<open>TEXT\<close> column.\<close>

fun bind_param :: "env \<Rightarrow> jsval option \<Rightarrow> sqlval" where
  "bind_param e (Some (JStr s)) = SText s"
| "bind_param e (Some JNull) = SNull"
| "bind_param e v = (case bind_other e v of None \<Rightarrow> SNull | Some t \<Rightarrow> SText t)"

text \<open>
  \<open>db.get('SELECT is_active FROM managers WHERE manager_id = ?', [manager_id], ...)\<close>:
  the first matching row, or none.
\<close>

definition get_manager :: "store \<Rightarrow> sqlval \<Rightarrow> manager_row option" where
  "get_manager st p =
     (case p of
        SText t \<Rightarrow> find (\<lambda>m. m_manager_id m = t) (managers st)
      | _ \<Rightarrow> None)"

text \<open>The test \<open>!row || !row.is_active\<close> of the three manager checks, negated.\<close>

definition manager_ok :: "manager_row option \<Rightarrow> bool" where
  "manager_ok row = (case row of None \<Rightarrow> False | Some m \<Rightarrow> m_is_active m \<noteq> 0)"

subsection \<open>Conditions of a \<open>WHERE\<close> clause on \<open>users\<close>\<close>

text \<open>
  \<open>col = ?\<close>, \<open>col LIKE ?\<close> with the parameter \<open>'%' + digits\<close>, \<open>col IN (?, ..., ?)\<close>;
  the conditions of a clause are joined by \<open>AND\<close>. A comparison with \<open>NULL\<close> is never
  true. The pattern of the \<open>LIKE\<close> holds digits only after its \<open>%\<close>, so it asks for
  a suffix.
\<close>

datatype cond =
    ColEq string sqlval
  | ColLikeSuffix string string
  | ColIn string "sqlval list"

definition col :: "string \<Rightarrow> user_row \<Rightarrow> sqlval" where
  "col c u =
     (if c = ''user_id'' then SText (user_id u)
      else if c = ''full_name'' then SText (full_name u)
      else if c = ''mob_num'' then SText (mob_num u)
      else if c = ''pan_num'' then SText (pan_num u)
      else if c = ''manager_id'' then SText (manager_id u)
      else if c = ''created_at'' then SText (created_at u)
      else if c = ''updated_at'' then SText (updated_at u)
      else if c = ''is_active'' then SInt (is_active u)
      else SNull)"

definition ends_with :: "string \<Rightarrow> string \<Rightarrow> bool" where
  "ends_with suf s = (length suf \<le> length s \<and> drop (length s - length suf) s = suf)"

fun holds :: "user_row \<Rightarrow> cond \<Rightarrow> bool" where
  "holds u (ColEq c v) = (v \<noteq> SNull \<and> col c u = v)"
| "holds u (ColLikeSuffix c suf) =
     (case col c u of SText t \<Rightarrow> ends_with suf t | _ \<Rightarrow> False)"
| "holds u (ColIn c vs) = (col c u \<noteq> SNull \<and> col c u \<in> set vs)"

definition where_all :: "cond list \<Rightarrow> user_row \<Rightarrow> bool" where
  "where_all conds u = list_all (holds u) conds"

subsection \<open>Statements on \<open>users\<close>\<close>

text \<open>\<open>SELECT * FROM users WHERE ...\<close> through \<open>db.all\<close> (every row) and \<open>db.get\<close> (the first).\<close>

definition select_all :: "cond list \<Rightarrow> user_row list \<Rightarrow> user_row list" where
  "select_all conds rows = filter (where_all conds) rows"

definition select_get :: "cond list \<Rightarrow> user_row list \<Rightarrow> user_row option" where
  "select_get conds rows = find (where_all conds) rows"

text \<open>
  \<open>INSERT INTO users (...) VALUES (?, ?, ?, ?, ?, ?, ?, ?)\<close>. The statement fails when a
  value is \<open>NULL\<close>, when \<open>user_id\<close> (the primary key) is taken, or when \<open>mob_num\<close> or
  \<open>pan_num\<close> (both \<open>UNIQUE\<close>) is held by any row of the table, active or not. The
  foreign key on \<open>manager_id\<close> is not enforced: the code never turns
  \<open>PRAGMA foreign_keys\<close> on.
\<close>

definition insert_user ::
  "user_row list \<Rightarrow> string \<Rightarrow> sqlval \<Rightarrow> string \<Rightarrow> string \<Rightarrow> sqlval \<Rightarrow> string \<Rightarrow> string \<Rightarrow> int
     \<Rightarrow> sql_error + user_row list" where
  "insert_user rows uid fname mob pan mgr c_at u_at act =
     (case (fname, mgr) of
        (SText f, SText g) \<Rightarrow>
          (if uid \<in> set (map user_id rows) \<or> mob \<in> set (map mob_num rows) \<or>
              pan \<in> set (map pan_num rows)
           then Inl SQLITE_CONSTRAINT
           else Inr (rows @ [\<lparr>user_id = uid, full_name = f, mob_num = mob, pan_num = pan,
                              manager_id = g, created_at = c_at, updated_at = u_at,
                              is_active = act\<rparr>]))
      | _ \<Rightarrow> Inl SQLITE_CONSTRAINT)"

text \<open>One assignment \<open>col = ?\<close> of an \<open>UPDATE ... SET\<close>, applied to a row.\<close>

fun set_col :: "user_row \<Rightarrow> string \<times> sqlval \<Rightarrow> user_row" where
  "set_col u (c, SText t) =
     (if c = ''full_name'' then u\<lparr>full_name := t\<rparr>
      else if c = ''mob_num'' then u\<lparr>mob_num := t\<rparr>
      else if c = ''pan_num'' then u\<lparr>pan_num := t\<rparr>
      else if c = ''manager_id'' then u\<lparr>manager_id := t\<rparr>
      else if c = ''updated_at'' then u\<lparr>updated_at := t\<rparr>
      else u)"
| "set_col u (c, SInt n) = (if c = ''is_active'' then u\<lparr>is_active := n\<rparr> else u)"
| "set_col u (c, SNull) = u"

text \<open>
  An assignment that makes the statement fail: a \<open>NULL\<close> for a \<open>NOT NULL\<close> column, or
  a \<open>mob_num\<close> or \<open>pan_num\<close> that two rows of the updated table would hold.
\<close>

definition violates :: "user_row list \<Rightarrow> string \<times> sqlval \<Rightarrow> bool" where
  "violates new a =
     (snd a = SNull \<or>
      ((fst a = ''mob_num'' \<or> fst a = ''pan_num'') \<and>
       1 < length (filter (\<lambda>u. col (fst a) u = snd a) new)))"

text \<open>
  \<open>UPDATE users SET c1 = ?, ... WHERE ...\<close>: the new table and \<open>this.changes\<close>, the
  number of rows the clause matched. A statement that fails changes nothing.
\<close>

definition update_users ::
  "(string \<times> sqlval) list \<Rightarrow> cond list \<Rightarrow> user_row list \<Rightarrow> sql_error + (user_row list \<times> nat)" where
  "update_users sets conds rows =
     (let hit = filter (where_all conds) rows;
          new = map (\<lambda>u. if where_all conds u then foldl set_col u sets else u) rows
      in if hit = [] then Inr (rows, 0)
         else if list_ex (violates new) sets then Inl SQLITE_CONSTRAINT
         else Inr (new, length hit))"

text \<open>\<open>DELETE FROM users WHERE ...\<close>: the remaining rows and \<open>this.changes\<close>.\<close>

definition delete_users :: "cond list \<Rightarrow> user_row list \<Rightarrow> user_row list \<times> nat" where
  "delete_users conds rows =
     (filter (\<lambda>u. \<not> where_all conds u) rows, length (filter (where_all conds) rows))"

section \<open>The handlers\<close>

text \<open>
  The one response a handler sends: the status is given by \<open>status_of\<close>, the JSON
  body by the constructor and its arguments.
\<close>

datatype reply =
    MissingKeys "string list"
  | InvalidKeys "string list"
  | ValidationFailed string
  | ManagerNotActive "jsval option"
  | BulkNotAllowed
  | NotFound
  | InternalError
  | Created string
  | UsersList "user_row list"
  | Deleted
  | BulkUpdated nat
  | ManagerUpdated string
  | UserUpdated

fun status_of :: "reply \<Rightarrow> nat" where
  "status_of (MissingKeys ks) = 400"
| "status_of (InvalidKeys ks) = 400"
| "status_of (ValidationFailed msg) = 400"
| "status_of (ManagerNotActive m) = 400"
| "status_of BulkNotAllowed = 400"
| "status_of NotFound = 404"
| "status_of InternalError = 500"
| "status_of (Created uid) = 201"
| "status_of (UsersList rows) = 200"
| "status_of Deleted = 200"
| "status_of (BulkUpdated n) = 200"
| "status_of (ManagerUpdated uid) = 200"
| "status_of UserUpdated = 200"

text \<open>
  A handler either throws (the validators run synchronously inside it) or sends a
  response and leaves a store.
\<close>

type_synonym outcome = "js_error + (reply \<times> store)"

definition createUser :: "env \<Rightarrow> jsobject \<Rightarrow> store \<Rightarrow> outcome" where
  "createUser e body st =
     (let missingKeys =
            checkMissingKeys body [''full_name'', ''mob_num'', ''pan_num'', ''manager_id'']
      in if length missingKeys > 0 then Inr (MissingKeys missingKeys, st)
         else
           case validateUser (get_prop body ''full_name'') (get_prop body ''mob_num'')
                  (get_prop body ''pan_num'') of
             Inl err \<Rightarrow> Inl err
           | Inr (Invalid msg) \<Rightarrow> Inr (ValidationFailed msg, st)
           | Inr (Valid v_mob_num v_pan_num) \<Rightarrow>
               (let mgr = get_prop body ''manager_id'' in
                if \<not> manager_ok (get_manager st (bind_param e mgr))
                then Inr (ManagerNotActive mgr, st)
                else
                  case insert_user (users st) (uuid e)
                         (bind_param e (get_prop body ''full_name'')) v_mob_num v_pan_num
                         (bind_param e mgr) (now e) (now e) 1 of
                    Inl err \<Rightarrow> Inr (InternalError, st)
                  | Inr rows \<Rightarrow> Inr (Created (uuid e), st\<lparr>users := rows\<rparr>)))"

text \<open>
  \<open>getUsers\<close>: the conditions pushed for the filters that are truthy, after the fixed
  \<open>is_active = 1\<close>.
\<close>

definition getUsers :: "env \<Rightarrow> jsobject \<Rightarrow> store \<Rightarrow> outcome" where
  "getUsers e body st =
     (let uid = get_prop body ''user_id'';
          mob = get_prop body ''mob_num'';
          mgr = get_prop body ''manager_id'';
          c1 = (if truthy uid then [ColEq ''user_id'' (bind_param e uid)] else []);
          c3 = (if truthy mgr then [ColEq ''manager_id'' (bind_param e mgr)] else [])
      in if truthy mob then
           (case mob of
              Some (JStr m) \<Rightarrow>
                Inr (UsersList
                       (select_all
                          (ColEq ''is_active'' (SInt 1) #
                           c1 @ [ColLikeSuffix ''mob_num'' (format_mob m)] @ c3)
                          (users st)), st)
            | _ \<Rightarrow> Inl TypeError)
         else Inr (UsersList (select_all (ColEq ''is_active'' (SInt 1) # c1 @ c3) (users st)), st))"

definition deleteUser :: "env \<Rightarrow> jsobject \<Rightarrow> store \<Rightarrow> outcome" where
  "deleteUser e body st =
     (let uid = get_prop body ''user_id'';
          mob = get_prop body ''mob_num''
      in if \<not> truthy uid \<and> \<not> truthy mob
         then Inr (MissingKeys [''user_id or mob_num''], st)
         else
           case (if truthy uid then Inr [ColEq ''user_id'' (bind_param e uid)]
                 else case mob of
                        Some (JStr m) \<Rightarrow> Inr [ColEq ''mob_num'' (SText (format_mob m))]
                      | _ \<Rightarrow> Inl TypeError) of
             Inl err \<Rightarrow> Inl err
           | Inr conds \<Rightarrow>
               (let (rows, changes) = delete_users conds (users st)
                in if changes = 0 then Inr (NotFound, st)
                   else Inr (Deleted, st\<lparr>users := rows\<rparr>)))"

text \<open>
  The body of \<open>/update_user\<close>, for the requests the update is written for:
  \<open>user_ids\<close>, an array when the key is present, and \<open>update_data\<close>, an object when
  the key is present. A body in which one of the two keys holds another kind of value
  (null, a number, a string) is not expressed by this record; on such a value the
  handler reads \<open>user_ids.length\<close> or \<open>Object.keys(update_data)\<close> and can throw.
\<close>

record update_body =
  user_ids :: "jsval list option"
  update_data :: "jsobject option"

text \<open>
  The statements of the single-user manager change, inside \<open>db.serialize\<close>: the
  \<open>UPDATE\<close> that deactivates the row, then the \<open>INSERT\<close> of its replacement. Each
  statement is committed on its own; the \<open>INSERT\<close> runs whatever the \<open>UPDATE\<close> did, and
  the first callback that responds decides the response.
\<close>

definition reassign :: "env \<Rightarrow> sqlval \<Rightarrow> user_row \<Rightarrow> jsval option \<Rightarrow> store \<Rightarrow> reply \<times> store" where
  "reassign e uid user newManagerId st =
     (let r1 = update_users [(''is_active'', SInt 0), (''updated_at'', SText (now e))]
                 [ColEq ''user_id'' uid] (users st);
          rows1 = (case r1 of Inl err \<Rightarrow> users st | Inr (rows, changes) \<Rightarrow> rows);
          newUser_id = uuid e;
          r2 = insert_user rows1 newUser_id (SText (full_name user)) (mob_num user)
                 (pan_num user) (bind_param e newManagerId) (now2 e) (now2 e) 1;
          rows2 = (case r2 of Inl err \<Rightarrow> rows1 | Inr rows \<Rightarrow> rows)
      in (case r1 of
            Inl err \<Rightarrow> InternalError
          | Inr ok \<Rightarrow> (case r2 of Inl err \<Rightarrow> InternalError
                                 | Inr rows \<Rightarrow> ManagerUpdated newUser_id),
          st\<lparr>users := rows2\<rparr>))"

definition updateUser :: "env \<Rightarrow> update_body \<Rightarrow> store \<Rightarrow> outcome" where
  "updateUser e body st =
     (case (user_ids body, update_data body) of
        (Some ids, Some data) \<Rightarrow>
          (let invalidKeys = filter (\<lambda>key. key \<notin> set validKeys) (keys data)
           in if length invalidKeys > 0 then Inr (InvalidKeys invalidKeys, st)
              else
                case validateUpdate data of
                  Inl err \<Rightarrow> Inl err
                | Inr (UInvalid msg) \<Rightarrow> Inr (ValidationFailed msg, st)
                | Inr (UValid checked) \<Rightarrow>
                    (let mgr = get_prop data ''manager_id'' in
                     if length (keys data) = 1 \<and> truthy mgr \<and> length ids > 1 then
                       (if \<not> manager_ok (get_manager st (bind_param e mgr))
                        then Inr (ManagerNotActive mgr, st)
                        else
                          case update_users
                                 [(''manager_id'', bind_param e mgr),
                                  (''updated_at'', SText (now e))]
                                 [ColIn ''user_id'' (map (\<lambda>i. bind_param e (Some i)) ids)]
                                 (users st) of
                            Inl err \<Rightarrow> Inr (InternalError, st)
                          | Inr (rows, changes) \<Rightarrow>
                              Inr (BulkUpdated changes, st\<lparr>users := rows\<rparr>))
                     else if length ids > 1 then Inr (BulkNotAllowed, st)
                     else
                       (let uid = bind_param e (case ids of [] \<Rightarrow> None | i # rest \<Rightarrow> Some i)
                        in if truthy mgr then
                             (if \<not> manager_ok (get_manager st (bind_param e mgr))
                              then Inr (ManagerNotActive mgr, st)
                              else
                                case select_get
                                       [ColEq ''user_id'' uid, ColEq ''is_active'' (SInt 1)]
                                       (users st) of
                                  None \<Rightarrow> Inr (NotFound, st)
                                | Some user \<Rightarrow> Inr (reassign e uid user mgr st))
                           else
                             (case validateUpdate data of
                                Inl err \<Rightarrow> Inl err
                              | Inr (UInvalid msg) \<Rightarrow> Inr (ValidationFailed msg, st)
                              | Inr (UValid validatedData) \<Rightarrow>
                                  (let updateFields =
                                         map (\<lambda>(key, v). (key, bind_param e (Some v)))
                                           validatedData
                                   in if length updateFields = 0
                                      then Inr (ValidationFailed ''No valid fields to update.'', st)
                                      else
                                        case update_users
                                               (updateFields @ [(''updated_at'', SText (now e))])
                                               [ColEq ''user_id'' uid] (users st) of
                                          Inl err \<Rightarrow> Inr (InternalError, st)
                                        | Inr (rows, changes) \<Rightarrow>
                                            (if changes = 0 then Inr (NotFound, st)
                                             else Inr (UserUpdated, st\<lparr>users := rows\<rparr>)))))))
      | _ \<Rightarrow>
          Inr (MissingKeys
                 ((if user_ids body = None then [''user_ids''] else []) @
                  (if update_data body = None then [''update_data''] else [])), st))"

section \<open>A store and requests to run the handlers on\<close>

text \<open>
  The store after start-up, with identifiers shortened: \<open>prefillManagers\<close> has
  inserted two active managers and an inactive one, and there is no user yet.
\<close>

definition seed_store :: store where
  "seed_store =
     \<lparr>managers =
        [\<lparr>m_manager_id = ''m-a'', manager_name = ''Manager A'', m_is_active = 1\<rparr>,
         \<lparr>m_manager_id = ''m-b'', manager_name = ''Manager B'', m_is_active = 1\<rparr>,
         \<lparr>m_manager_id = ''m-c'', manager_name = ''Inactive Manager'', m_is_active = 0\<rparr>],
      users = []\<rparr>"

definition asha :: user_row where
  "asha = \<lparr>user_id = ''u-1'', full_name = ''Asha Rao'', mob_num = ''9876543210'',
            pan_num = ''ABCDE1234F'', manager_id = ''m-a'', created_at = ''t0'',
            updated_at = ''t0'', is_active = 1\<rparr>"

definition ravi :: user_row where
  "ravi = \<lparr>user_id = ''u-2'', full_name = ''Ravi Iyer'', mob_num = ''9123456780'',
            pan_num = ''PQRST6789Z'', manager_id = ''m-a'', created_at = ''t0'',
            updated_at = ''t0'', is_active = 0\<rparr>"

definition env1 :: env where
  "env1 = \<lparr>uuid = ''u-1'', now = ''t0'', now2 = ''t0b'', bind_other = (\<lambda>v. None)\<rparr>"

definition env2 :: env where
  "env2 = \<lparr>uuid = ''u-3'', now = ''t1'', now2 = ''t2'', bind_other = (\<lambda>v. None)\<rparr>"

definition asha_body :: jsobject where
  "asha_body = [(''full_name'', JStr ''Asha Rao''), (''mob_num'', JStr ''+91-98765-43210''),
                (''pan_num'', JStr ''abcde1234f''), (''manager_id'', JStr ''m-a'')]"

definition two_users :: store where
  "two_users = seed_store\<lparr>users := [asha, ravi]\<rparr>"

definition asha_store :: store where
  "asha_store = seed_store\<lparr>users := [asha]\<rparr>"

text \<open>Move the user \<open>u-1\<close> to the active manager \<open>m-b\<close>.\<close>

definition reassign_body :: update_body where
  "reassign_body =
     \<lparr>user_ids = Some [JStr ''u-1''], update_data = Some [(''manager_id'', JStr ''m-b'')]\<rparr>"

text \<open>Move the user \<open>u-1\<close> to the inactive manager \<open>m-c\<close>.\<close>

definition inactive_manager_body :: update_body where
  "inactive_manager_body =
     \<lparr>user_ids = Some [JStr ''u-1''], update_data = Some [(''manager_id'', JStr ''m-c'')]\<rparr>"

text \<open>Move the users \<open>u-1\<close> and \<open>u-2\<close> to the active manager \<open>m-b\<close>.\<close>

definition bulk_body :: update_body where
  "bulk_body =
     \<lparr>user_ids = Some [JStr ''u-1'', JStr ''u-2''],
      update_data = Some [(''manager_id'', JStr ''m-b'')]\<rparr>"

text \<open>Two targets with a valid payload other than \<open>manager_id\<close>: a new name.\<close>

definition rename_two_body :: update_body where
  "rename_two_body =
     \<lparr>user_ids = Some [JStr ''u-1'', JStr ''u-2''],
      update_data = Some [(''full_name'', JStr ''Asha R'')]\<rparr>"

text \<open>Bodies of \<open>/delete_user\<close> and \<open>/get_users\<close>.\<close>

definition delete_ravi_body :: jsobject where
  "delete_ravi_body = [(''user_id'', JStr ''u-2'')]"

definition delete_unknown_body :: jsobject where
  "delete_unknown_body = [(''user_id'', JStr ''u-9'')]"

definition delete_ravi_by_mob_body :: jsobject where
  "delete_ravi_by_mob_body = [(''mob_num'', JStr ''(912) 345-6780'')]"

definition plus91_mob_body :: jsobject where
  "plus91_mob_body = [(''mob_num'', JStr ''+91-98765-43210'')]"

definition suffix_mob_body :: jsobject where
  "suffix_mob_body = [(''mob_num'', JStr ''43210'')]"

definition number_only_mob_body :: jsobject where
  "number_only_mob_body = [(''mob_num'', JNum 5)]"

definition by_user_body :: jsobject where
  "by_user_body = [(''user_id'', JStr ''u-1'')]"

definition by_manager_body :: jsobject where
  "by_manager_body = [(''manager_id'', JStr ''m-a'')]"





section \<open>Facts about the string helpers and the validators\<close>

text \<open>Unfolding these evaluates the helpers on a given string.\<close>

lemmas units_eval = seq_len_def seq_ok_def seq_value_def utf16_def is_cont_def

lemmas bytes_eval = utf8_def surrogate_def char_of_def bit_iff_odd

lemmas upper_eval = toUpperCase_def upper_unit_def units_eval bytes_eval

lemmas blank_eval = trim_def is_space_def units_eval

lemma units_ascii:
  "list_all (\<lambda>c. of_char c < (128::nat)) s \<Longrightarrow> units s = map of_char s"
  by (induction s) (auto simp: Let_def)

lemma bytes_ascii:
  "list_all (\<lambda>u. u < 128) us \<Longrightarrow> bytes us = map char_of us"
  by (induction us rule: bytes.induct) (auto simp: utf8_def surrogate_def)

lemma upper_unit_ascii:
  "u < 128 \<Longrightarrow> upper_unit u = [if 97 \<le> u \<and> u \<le> 122 then u - 32 else u]"
  by (auto simp: upper_unit_def)

lemma concat_upper_ascii:
  "list_all (\<lambda>u. u < 128) us \<Longrightarrow>
     concat (map upper_unit us) = map (\<lambda>u. if 97 \<le> u \<and> u \<le> 122 then u - 32 else u) us"
  by (induction us) (auto simp: upper_unit_ascii)

lemma toUpperCase_ascii:
  assumes "list_all (\<lambda>c. of_char c < (128::nat)) s"
  shows "toUpperCase s =
     map (\<lambda>c. if 97 \<le> (of_char c :: nat) \<and> (of_char c :: nat) \<le> 122
               then char_of ((of_char c :: nat) - 32) else c) s"
proof -
  have u: "units s = map of_char s" by (rule units_ascii[OF assms])
  have a: "list_all (\<lambda>u. u < 128) (map of_char s :: nat list)"
    using assms by (simp add: list_all_iff)
  have b: "list_all (\<lambda>u. u < 128)
      (map (\<lambda>u. if 97 \<le> u \<and> u \<le> 122 then u - 32 else u) (map of_char s :: nat list))"
    using assms by (auto simp: list_all_iff)
  show ?thesis
    unfolding toUpperCase_def u concat_upper_ascii[OF a] bytes_ascii[OF b]
    by (auto simp: comp_def)
qed

lemma is_space_set:
  "list_all is_space us \<longleftrightarrow>
     set us \<subseteq> {9, 10, 11, 12, 13, 32, 160, 5760, 8192, 8193, 8194, 8195, 8196, 8197, 8198,
                8199, 8200, 8201, 8202, 8232, 8233, 8239, 8287, 12288, 65279}"
  by (auto simp: list_all_iff is_space_def)

lemma panRegex_test_set:
  "panRegex_test P \<longleftrightarrow>
     length P = 10 \<and> set (take 5 P) \<subseteq> set ''ABCDEFGHIJKLMNOPQRSTUVWXYZ'' \<and>
     set (take 4 (drop 5 P)) \<subseteq> set ''0123456789'' \<and>
     set (drop 9 P) \<subseteq> set ''ABCDEFGHIJKLMNOPQRSTUVWXYZ''"
  unfolding panRegex_test_def list_all_iff is_upper_def is_digit_def by blast

lemma format_mob_explicit:
  "format_mob m =
     drop (length (filter (\<lambda>c. c \<in> set ''0123456789'') m) - 10)
       (filter (\<lambda>c. c \<in> set ''0123456789'') m)"
  unfolding format_mob_def slice_last10_def strip_non_digits_def is_digit_def by (rule refl)

lemma ball_dropWhile: "(\<forall>x\<in>set (dropWhile P xs). P x) = (\<forall>x\<in>set xs. P x)"
  by (induction xs) auto

lemma trim_Nil_iff: "trim s = [] \<longleftrightarrow> list_all is_space s"
  by (simp add: trim_def list_all_iff ball_dropWhile)

lemma format_mob_digits: "list_all is_digit (format_mob m)"
  by (auto simp: format_mob_def slice_last10_def strip_non_digits_def list_all_iff
      dest!: in_set_dropD)

lemma validateUser_strings:
  "validateUser (Some (JStr f)) (Some (JStr m)) (Some (JStr p)) =
     (if list_all is_space (units f) then Inr (Invalid ''Full name must not be empty.'')
      else if length (format_mob m) \<noteq> 10
      then Inr (Invalid ''Mobile number must be a valid 10-digit number.'')
      else if \<not> panRegex_test (toUpperCase p)
      then Inr (Invalid ''PAN number is not a valid format.'')
      else Inr (Valid (format_mob m) (toUpperCase p)))"
proof -
  have "f = [] \<Longrightarrow> list_all is_space (units f)" by simp
  then show ?thesis
    by (auto simp: validateUser_def Let_def trim_Nil_iff)
qed

lemma createUser_Created:
  assumes "createUser e body st = Inr (Created uid, st')"
  shows "\<exists>f m p g.
     get_prop body ''full_name'' = Some (JStr f) \<and> get_prop body ''mob_num'' = Some (JStr m) \<and>
     get_prop body ''pan_num'' = Some (JStr p) \<and>
     bind_param e (get_prop body ''manager_id'') = SText g \<and>
     validateUser (Some (JStr f)) (Some (JStr m)) (Some (JStr p)) =
       Inr (Valid (format_mob m) (toUpperCase p)) \<and>
     uid = uuid e \<and>
     st' = st\<lparr>users := users st @
             [\<lparr>user_id = uuid e, full_name = f, mob_num = format_mob m,
               pan_num = toUpperCase p, manager_id = g, created_at = now e,
               updated_at = now e, is_active = 1\<rparr>]\<rparr>"
  using assms
  apply (simp add: createUser_def Let_def split: if_splits sum.splits validation.splits)
  apply (auto simp: validateUser_def Let_def insert_user_def
      split: if_splits option.splits jsval.splits sqlval.splits)
  done

lemma format_mob_example: "format_mob ''+91-98765-43210'' = ''9876543210''"
  by code_simp

lemma toUpperCase_example: "toUpperCase ''abcde1234f'' = ''ABCDE1234F''"
  by (simp add: upper_eval)

lemma toUpperCase_dotless_i:
  "toUpperCase (''abcd'' @ [CHR 0xC4, CHR 0xB1] @ ''1234f'') = ''ABCDI1234F''"
  by (simp add: upper_eval)

lemma toUpperCase_sharp_s:
  "toUpperCase (''abc'' @ [CHR 0xC3, CHR 0x9F] @ ''1234f'') = ''ABCSS1234F''"
  by (simp add: upper_eval)

lemma toUpperCase_e_acute:
  "toUpperCase (''abcd'' @ [CHR 0xC3, CHR 0xA9] @ ''1234f'') =
     ''ABCD'' @ [CHR 0xC3, CHR 0xA9] @ ''1234F''"
  by (simp add: upper_eval)

lemma units_no_break_space: "units [CHR 0xC2, CHR 0xA0] = [160]"
  by (simp add: units_eval)

lemma createUser_asha:
  "createUser env1 asha_body seed_store = Inr (Created ''u-1'', seed_store\<lparr>users := [asha]\<rparr>)"
  by (simp add: createUser_def checkMissingKeys_def get_prop_def validateUser_strings
      format_mob_example toUpperCase_example panRegex_test_def is_upper_def is_digit_def
      is_space_def units_eval manager_ok_def get_manager_def insert_user_def seed_store_def env1_def
      asha_body_def asha_def)

section \<open>Facts about the statements\<close>

lemmas sql_defs = update_users_def where_all_def col_def violates_def insert_user_def
  select_get_def select_all_def delete_users_def get_manager_def manager_ok_def

lemma select_get_mem: "select_get conds rows = Some u \<Longrightarrow> u \<in> set rows \<and> where_all conds u"
  by (auto simp: select_get_def find_Some_iff)

text \<open>The \<open>UPDATE\<close> that deactivates never fails: it assigns no unique column.\<close>

lemma deactivate_rows:
  "update_users [(''is_active'', SInt 0), (''updated_at'', SText t)] conds rows =
     Inr (map (\<lambda>u. if where_all conds u then u\<lparr>is_active := 0, updated_at := t\<rparr> else u) rows,
          length (filter (where_all conds) rows))"
proof -
  have "map (\<lambda>u. if where_all conds u then u\<lparr>is_active := 0, updated_at := t\<rparr> else u) rows = rows"
    if "filter (where_all conds) rows = []"
    using that by (induction rows) (auto split: if_splits)
  then show ?thesis
    by (auto simp: update_users_def Let_def violates_def)
qed

text \<open>
  The \<open>INSERT\<close> of the replacement row is always refused: the row it copies is still in
  the table, deactivated, and holds the same \<open>mob_num\<close>, which is \<open>UNIQUE\<close>.
\<close>

lemma reassign_rejected:
  assumes "user \<in> set (users st)"
  shows "reassign e uid user mgr st =
     (InternalError,
      st\<lparr>users := map (\<lambda>u. if where_all [ColEq ''user_id'' uid] u
                           then u\<lparr>is_active := 0, updated_at := now e\<rparr> else u) (users st)\<rparr>)"
proof -
  let ?rows1 = "map (\<lambda>u. if where_all [ColEq ''user_id'' uid] u
                           then u\<lparr>is_active := 0, updated_at := now e\<rparr> else u) (users st)"
  have "map mob_num ?rows1 = map mob_num (users st)"
    by (induction "users st") auto
  with assms have "mob_num user \<in> set (map mob_num ?rows1)" by simp
  then have "insert_user ?rows1 (uuid e) (SText (full_name user)) (mob_num user) (pan_num user)
      (bind_param e mgr) (now2 e) (now2 e) 1 = Inl SQLITE_CONSTRAINT"
    by (auto simp: insert_user_def split: sqlval.splits)
  then show ?thesis
    by (simp add: reassign_def deactivate_rows Let_def)
qed

lemma validateUpdate_manager_only:
  "validateUpdate [(''manager_id'', v)] = Inr (UValid [(''manager_id'', v)])"
  by (simp add: validateUpdate_def keys_def validKeys_def get_prop_def)

text \<open>
  Whatever the store: a request that moves one active user to an active manager is
  answered with 500, and leaves the user deactivated and not replaced.
\<close>

lemma single_reassign_always_500:
  assumes ids: "user_ids body = Some [i]"
    and data: "update_data body = Some [(''manager_id'', mgr)]"
    and t: "truthy (Some mgr)"
    and m: "manager_ok (get_manager st (bind_param e (Some mgr)))"
    and u: "select_get [ColEq ''user_id'' (bind_param e (Some i)), ColEq ''is_active'' (SInt 1)]
              (users st) = Some user"
  shows "updateUser e body st =
     Inr (InternalError,
      st\<lparr>users := map (\<lambda>u. if where_all [ColEq ''user_id'' (bind_param e (Some i))] u
                           then u\<lparr>is_active := 0, updated_at := now e\<rparr> else u) (users st)\<rparr>)"
proof -
  from select_get_mem[OF u] have "user \<in> set (users st)" by simp
  note r = reassign_rejected[OF this]
  show ?thesis using ids data t m u
    by (simp add: updateUser_def validateUpdate_manager_only keys_def validKeys_def get_prop_def r)
qed

lemma updateUser_reassign_asha:
  "updateUser env2 reassign_body asha_store =
     Inr (InternalError, seed_store\<lparr>users := [asha\<lparr>is_active := 0, updated_at := ''t1''\<rparr>]\<rparr>)"
  by (simp add: updateUser_def reassign_body_def asha_store_def validateUpdate_manager_only
      keys_def validKeys_def get_prop_def reassign_def sql_defs seed_store_def asha_def env2_def)

lemma updateUser_inactive_manager:
  "updateUser env2 inactive_manager_body asha_store =
     Inr (ManagerNotActive (Some (JStr ''m-c'')), asha_store)"
  by (simp add: updateUser_def inactive_manager_body_def asha_store_def
      validateUpdate_manager_only keys_def validKeys_def get_prop_def sql_defs seed_store_def)

section \<open>Facts about \<open>validateUpdate\<close> and \<open>UPDATE\<close>\<close>

lemma map_fst_set_prop:
  "map fst (set_prop obj k v) = (if k \<in> set (map fst obj) then map fst obj else map fst obj @ [k])"
proof (induction obj)
  case Nil
  then show ?case by simp
next
  case (Cons a obj)
  then show ?case by (cases a) force
qed

lemma keys_set_prop: "set (keys (set_prop obj k v)) = insert k (set (keys obj))"
  by (auto simp: keys_def map_fst_set_prop)

lemma validateUpdate_loop_manager_key:
  "validateUpdate_loop data ks vd0 = Inr (UValid vd) \<Longrightarrow> ''manager_id'' \<in> set (keys vd) \<Longrightarrow>
     ''manager_id'' \<in> set (keys vd0) \<or> get_prop data ''manager_id'' \<noteq> None"
proof (induction ks arbitrary: vd0)
  case Nil
  then show ?case by (simp split: if_splits)
next
  case (Cons k ks)
  from Cons.prems show ?case
    by (auto simp: keys_set_prop Let_def split: if_splits option.splits jsval.splits
        dest!: Cons.IH)
qed

lemma validateUpdate_manager_key:
  "validateUpdate data = Inr (UValid vd) \<Longrightarrow> get_prop data ''manager_id'' = None \<Longrightarrow>
     ''manager_id'' \<notin> set (keys vd)"
  using validateUpdate_loop_manager_key[of data "keys data" "[]" vd]
  by (auto simp: validateUpdate_def keys_def)

lemma set_col_keeps_user_id: "user_id (set_col u a) = user_id u"
  by (cases a; cases "snd a") auto

lemma foldl_set_col_user_id: "user_id (foldl set_col u sets) = user_id u"
  by (induction sets arbitrary: u) (auto simp: set_col_keeps_user_id)

lemma set_col_keeps_manager_id: "fst a \<noteq> ''manager_id'' \<Longrightarrow> manager_id (set_col u a) = manager_id u"
  by (cases a; cases "snd a") auto

lemma foldl_set_col_manager_id:
  "''manager_id'' \<notin> fst ` set sets \<Longrightarrow> manager_id (foldl set_col u sets) = manager_id u"
  by (induction sets arbitrary: u) (auto simp: set_col_keeps_manager_id)

lemma map_pair_zip: "map (\<lambda>u. (f u, g u)) xs = zip (map f xs) (map g xs)"
  by (induction xs) auto

lemma update_users_keeps_ids:
  assumes "update_users sets conds rows = Inr (rows', n)"
  shows "map user_id rows' = map user_id rows"
  using assms
  by (auto simp: update_users_def Let_def foldl_set_col_user_id split: if_splits)

lemma update_users_keeps_managers:
  assumes "update_users sets conds rows = Inr (rows', n)" and "''manager_id'' \<notin> fst ` set sets"
  shows "map manager_id rows' = map manager_id rows"
  using assms
  by (auto simp: update_users_def Let_def foldl_set_col_manager_id split: if_splits)

lemma reassign_keeps_rows:
  "map (\<lambda>u. (user_id u, manager_id u))
      (take (length (users st)) (users (snd (reassign e uid user mgr st)))) =
   map (\<lambda>u. (user_id u, manager_id u)) (users st)"
  by (auto simp: reassign_def Let_def deactivate_rows insert_user_def split: sqlval.splits)

lemma fields_no_manager:
  "''manager_id'' \<notin> set (keys vd) \<Longrightarrow>
   ''manager_id'' \<notin> fst ` set (map (\<lambda>(key, v). (key, bind_param e (Some v))) vd @ [(''updated_at'', SText t)])"
  by (auto simp: image_iff keys_def)

lemma updateUser_bulk_two_users:
  "updateUser env2 bulk_body two_users =
     Inr (BulkUpdated 2,
          two_users\<lparr>users := [asha\<lparr>manager_id := ''m-b'', updated_at := ''t1''\<rparr>,
                              ravi\<lparr>manager_id := ''m-b'', updated_at := ''t1''\<rparr>]\<rparr>)"
  by (simp add: updateUser_def bulk_body_def two_users_def validateUpdate_manager_only keys_def
      validKeys_def get_prop_def sql_defs seed_store_def asha_def ravi_def env2_def)




lemma validateUpdate_loop_valid_keys:
  "validateUpdate_loop data ks vd0 = Inr (UValid vd) \<Longrightarrow> set ks \<subseteq> set validKeys"
proof (induction ks arbitrary: vd0)
  case Nil
  then show ?case by simp
next
  case (Cons k ks)
  from Cons.prems show ?case
    by (auto simp: Let_def split: if_splits option.splits jsval.splits dest!: Cons.IH)
qed

lemma validateUpdate_valid_keys:
  "validateUpdate data = Inr (UValid vd) \<Longrightarrow> filter (\<lambda>key. key \<notin> set validKeys) (keys data) = []"
  using validateUpdate_loop_valid_keys[of data "keys data" "[]" vd]
  by (auto simp: validateUpdate_def filter_empty_conv)

lemma single_key_manager:
  assumes "length (keys data) = 1" and "truthy (get_prop data ''manager_id'')"
  shows "keys data = [''manager_id'']"
proof -
  from assms(1) obtain k v where d: "data = [(k, v)]"
    by (cases data) (auto simp: keys_def)
  with assms(2) show ?thesis
    by (auto simp: keys_def get_prop_def split: if_splits)
qed

lemma validateUpdate_rename:
  "validateUpdate [(''full_name'', JStr ''Asha R'')] = Inr (UValid [(''full_name'', JStr ''Asha R'')])"
  by (simp add: validateUpdate_def keys_def validKeys_def get_prop_def blank_eval)

section \<open>Facts about \<open>deleteUser\<close> and \<open>getUsers\<close>\<close>

lemma where_eq_user_id:
  "where_all [ColEq ''user_id'' v] = (\<lambda>u. v = SText (user_id u))"
  by (rule ext) (auto simp: where_all_def col_def)

lemma where_eq_mob_num:
  "where_all [ColEq ''mob_num'' (SText t)] = (\<lambda>u. mob_num u = t)"
  by (rule ext) (auto simp: where_all_def col_def)

lemma where_eq_user_id_text:
  "where_all [ColEq ''user_id'' (SText t)] = (\<lambda>u. user_id u = t)"
  by (rule ext) (auto simp: where_all_def col_def)

lemma deleteUser_by_id:
  assumes "truthy (get_prop body ''user_id'')"
  shows "deleteUser e body st =
     (if filter (\<lambda>u. bind_param e (get_prop body ''user_id'') = SText (user_id u)) (users st) = []
      then Inr (NotFound, st)
      else Inr (Deleted, st\<lparr>users :=
             filter (\<lambda>u. bind_param e (get_prop body ''user_id'') \<noteq> SText (user_id u)) (users st)\<rparr>))"
  using assms by (simp add: deleteUser_def delete_users_def where_eq_user_id Let_def)

lemma deleteUser_by_mob:
  assumes "\<not> truthy (get_prop body ''user_id'')" and "get_prop body ''mob_num'' = Some (JStr m)"
    and "m \<noteq> []"
  shows "deleteUser e body st =
     (if filter (\<lambda>u. mob_num u = format_mob m) (users st) = []
      then Inr (NotFound, st)
      else Inr (Deleted, st\<lparr>users := filter (\<lambda>u. mob_num u \<noteq> format_mob m) (users st)\<rparr>))"
  using assms by (simp add: deleteUser_def delete_users_def where_eq_mob_num Let_def)

lemma ends_with_iff: "ends_with suf s \<longleftrightarrow> (\<exists>pre. s = pre @ suf)"
proof
  assume "ends_with suf s"
  then have "s = take (length s - length suf) s @ suf"
    by (simp add: ends_with_def) (metis append_take_drop_id)
  then show "\<exists>pre. s = pre @ suf" ..
next
  assume "\<exists>pre. s = pre @ suf"
  then show "ends_with suf s" by (auto simp: ends_with_def)
qed

lemma col_simps:
  "col ''is_active'' u = SInt (is_active u)"
  "col ''user_id'' u = SText (user_id u)"
  "col ''manager_id'' u = SText (manager_id u)"
  "col ''mob_num'' u = SText (mob_num u)"
  by (simp_all add: col_def)

lemma deleteUser_non_string_mob:
  assumes "\<not> truthy (get_prop body ''user_id'')" and "truthy (get_prop body ''mob_num'')"
    and "\<forall>m. get_prop body ''mob_num'' \<noteq> Some (JStr m)"
  shows "deleteUser e body st = Inl TypeError"
  using assms
  by (cases "get_prop body ''mob_num''")
     (auto simp: deleteUser_def Let_def split: jsval.splits)

lemma deleteUser_by_string_id:
  assumes "get_prop body ''user_id'' = Some (JStr i)" and "i \<noteq> []"
  shows "deleteUser e body st =
     (if filter (\<lambda>u. user_id u = i) (users st) = []
      then Inr (NotFound, st)
      else Inr (Deleted, st\<lparr>users := filter (\<lambda>u. user_id u \<noteq> i) (users st)\<rparr>))"
  using assms by (simp add: deleteUser_def delete_users_def where_eq_user_id_text Let_def)

lemma bind_eq_cases:
  "(truthy v \<longrightarrow> bind_param e v = SText t) \<longleftrightarrow>
     ((\<forall>i. v = Some (JStr i) \<and> i \<noteq> [] \<longrightarrow> t = i) \<and>
      (truthy v \<and> (\<forall>i. v \<noteq> Some (JStr i)) \<longrightarrow> bind_param e v = SText t))"
proof (cases v)
  case None
  then show ?thesis by simp
next
  case (Some a)
  then show ?thesis by (cases a) auto
qed

lemma getUsers_general:
  assumes "\<not> truthy (get_prop body ''mob_num'') \<or> (\<exists>m. get_prop body ''mob_num'' = Some (JStr m))"
  shows "getUsers e body st =
     Inr (UsersList
            (filter (\<lambda>u. is_active u = 1 \<and>
                       (truthy (get_prop body ''user_id'') \<longrightarrow>
                          bind_param e (get_prop body ''user_id'') = SText (user_id u)) \<and>
                       (\<forall>m. get_prop body ''mob_num'' = Some (JStr m) \<and> m \<noteq> [] \<longrightarrow>
                          ends_with (format_mob m) (mob_num u)) \<and>
                       (truthy (get_prop body ''manager_id'') \<longrightarrow>
                          bind_param e (get_prop body ''manager_id'') = SText (manager_id u)))
               (users st)), st)"
proof -
  have eq: "(v \<noteq> SNull \<and> SText t = v) \<longleftrightarrow> v = SText t" for v t by auto
  show ?thesis
    using assms
    by (cases "truthy (get_prop body ''user_id'')"; cases "truthy (get_prop body ''manager_id'')";
        cases "truthy (get_prop body ''mob_num'')")
       (auto simp: getUsers_def Let_def select_all_def where_all_def col_simps eq
          intro!: filter_cong)
qed

lemma getUsers_non_string_mob:
  assumes "truthy (get_prop body ''mob_num'')" and "\<forall>m. get_prop body ''mob_num'' \<noteq> Some (JStr m)"
  shows "getUsers e body st = Inl TypeError"
  using assms
  by (cases "get_prop body ''mob_num''")
     (auto simp: getUsers_def Let_def split: jsval.splits)


lemma format_mob_ravi: "format_mob ''(912) 345-6780'' = ''9123456780''"
  by code_simp

section \<open>Facts about exceptions in the validators\<close>














section \<open>Claim C1: the single-user manager reassignment\<close>

text \<open>
  C1. An update request with one target id, the id of an active user, and a
  \<open>manager_id\<close> that names an active manager is said to deactivate the row, insert
  one new active row with a fresh id, the same name, mobile number and PAN and the new
  manager, and return the new id. Run on the store that holds the active user \<open>u-1\<close>
  of manager \<open>m-a\<close>, with the active manager \<open>m-b\<close> as the new manager and the
  unused id \<open>u-3\<close> from \<open>uuidv4()\<close>, \<open>updateUser\<close> answers with 500: the row
  \<open>u-1\<close> is deactivated, the \<open>INSERT\<close> is refused because the deactivated row still
  holds the \<open>UNIQUE\<close> \<open>mob_num\<close> and \<open>pan_num\<close>, no row is added, and no active row
  is left.
\<close>

theorem manager_reassignment_insert_refused:
  "manager_ok (get_manager asha_store (SText ''m-b'')) \<and>
   select_get [ColEq ''user_id'' (SText ''u-1''), ColEq ''is_active'' (SInt 1)]
     (users asha_store) = Some asha \<and>
   uuid env2 \<notin> set (map user_id (users asha_store)) \<and>
   updateUser env2 reassign_body asha_store =
     Inr (InternalError, seed_store\<lparr>users := [asha\<lparr>is_active := 0, updated_at := ''t1''\<rparr>]\<rparr>) \<and>
   select_all [ColEq ''is_active'' (SInt 1)]
     (users (seed_store\<lparr>users := [asha\<lparr>is_active := 0, updated_at := ''t1''\<rparr>]\<rparr>)) = []"
  by (simp add: updateUser_reassign_asha)
     (simp add: sql_defs asha_store_def seed_store_def asha_def env2_def)

section \<open>Claim C2: what a failed update leaves in the store\<close>

text \<open>
  C2 as stated: when a step of an update sequence fails, the store holds no partial
  state, and no row is left deactivated without its replacement. It fails on the
  reassignment of \<open>u-1\<close>: the request is answered with 500, and the store it leaves
  differs from the one it started on, with \<open>u-1\<close> inactive and no other row.
\<close>

theorem failed_reassignment_leaves_deactivated_row:
  "updateUser env2 reassign_body asha_store =
     Inr (InternalError, seed_store\<lparr>users := [asha\<lparr>is_active := 0, updated_at := ''t1''\<rparr>]\<rparr>) \<and>
   status_of InternalError = 500 \<and>
   seed_store\<lparr>users := [asha\<lparr>is_active := 0, updated_at := ''t1''\<rparr>]\<rparr> \<noteq> asha_store \<and>
   map user_id (users (seed_store\<lparr>users := [asha\<lparr>is_active := 0, updated_at := ''t1''\<rparr>]\<rparr>))
     = [''u-1''] \<and>
   map is_active (users (seed_store\<lparr>users := [asha\<lparr>is_active := 0, updated_at := ''t1''\<rparr>]\<rparr>))
     = [0]"
  by (simp add: updateUser_reassign_asha)
     (simp add: asha_store_def seed_store_def asha_def)

text \<open>
  C2 as amended. The statements are not grouped into a transaction; each is committed
  on its own. An update request that is answered with 400 or 404 (the manager is
  missing or inactive, the target user is missing or inactive, the payload is
  refused) leaves the store as it was, and so does one answered with 500 unless it is
  the reassignment of a single user (at most one target id and a truthy
  \<open>manager_id\<close>). Nothing is said of the reassignment whose \<open>INSERT\<close> fails after
  the row was deactivated.
\<close>

theorem update_failure_leaves_store:
  assumes "updateUser e body st = Inr (r, st')" and "status_of r \<noteq> 200"
    and "status_of r = 500 \<longrightarrow>
      (\<exists>ids data. user_ids body = Some ids \<and> update_data body = Some data \<and>
         (length ids > 1 \<or> \<not> truthy (get_prop data ''manager_id'')))"
  shows "st' = st"
  using assms
  by (auto simp: updateUser_def Let_def reassign_def
      split: option.splits sum.splits update_validation.splits if_splits prod.splits)

theorem update_failure_leaves_store_witness:
  "updateUser env2 inactive_manager_body asha_store =
     Inr (ManagerNotActive (Some (JStr ''m-c'')), asha_store) \<and>
   status_of (ManagerNotActive (Some (JStr ''m-c''))) = 400 \<and>
   users asha_store = [asha]"
proof -
  have h1: "updateUser env2 inactive_manager_body asha_store =
     Inr (ManagerNotActive (Some (JStr ''m-c'')), asha_store)"
    by (rule updateUser_inactive_manager)
  have h2: "status_of (ManagerNotActive (Some (JStr ''m-c''))) \<noteq> 200" by simp
  have h3: "status_of (ManagerNotActive (Some (JStr ''m-c''))) = 500 \<longrightarrow>
      (\<exists>ids data. user_ids inactive_manager_body = Some ids \<and>
         update_data inactive_manager_body = Some data \<and>
         (length ids > 1 \<or> \<not> truthy (get_prop data ''manager_id'')))" by simp
  have "asha_store = asha_store"
    by (rule update_failure_leaves_store[OF h1 h2 h3])
  then have "users asha_store = [asha]" by (simp add: asha_store_def)
  with h1 show ?thesis by simp
qed

section \<open>Claim C3: changes of \<open>manager_id\<close> in place\<close>

text \<open>
  C3 as stated: no update changes the \<open>manager_id\<close> of an existing row in place. It
  fails on the bulk path: with the targets \<open>u-1\<close> and \<open>u-2\<close> and the payload
  \<open>{manager_id: m-b}\<close>, both rows keep their \<open>user_id\<close> and their \<open>is_active\<close>, no
  row is added, and the \<open>manager_id\<close> of both is overwritten from \<open>m-a\<close> to \<open>m-b\<close>.
\<close>

theorem bulk_update_rewrites_manager_id:
  "updateUser env2 bulk_body two_users =
     Inr (BulkUpdated 2,
          two_users\<lparr>users := [asha\<lparr>manager_id := ''m-b'', updated_at := ''t1''\<rparr>,
                              ravi\<lparr>manager_id := ''m-b'', updated_at := ''t1''\<rparr>]\<rparr>) \<and>
   users two_users = [asha, ravi] \<and>
   manager_id asha = ''m-a'' \<and>
   user_id (asha\<lparr>manager_id := ''m-b'', updated_at := ''t1''\<rparr>) = user_id asha \<and>
   is_active (asha\<lparr>manager_id := ''m-b'', updated_at := ''t1''\<rparr>) = is_active asha"
  by (simp add: updateUser_bulk_two_users) (simp add: two_users_def asha_def)

text \<open>
  C3 as amended. The bulk reassignment (more than one target id, a payload that is
  \<open>manager_id\<close> alone) overwrites \<open>manager_id\<close> in place, by design. Every other
  update whose payload has no \<open>manager_id\<close> or a truthy one, on at most one target id,
  leaves the \<open>user_id\<close> and the \<open>manager_id\<close> of every existing row as they were:
  the rows of the old table are the first rows of the new one, in the same order, with
  the same two columns.
\<close>

theorem single_update_keeps_manager_ids:
  assumes run: "updateUser e body st = Inr (r, st')"
    and ids: "user_ids body = Some ids" and one: "length ids \<le> 1"
    and data: "update_data body = Some data"
    and mgr: "get_prop data ''manager_id'' = None \<or> truthy (get_prop data ''manager_id'')"
  shows "map (\<lambda>u. (user_id u, manager_id u)) (take (length (users st)) (users st')) =
         map (\<lambda>u. (user_id u, manager_id u)) (users st)"
proof (cases "truthy (get_prop data ''manager_id'')")
  case True
  have "st' = st \<or> (\<exists>uid user. reassign e uid user (get_prop data ''manager_id'') st = (r, st'))"
    using run ids one data True
    by (auto simp: updateUser_def Let_def
        split: option.splits sum.splits update_validation.splits if_splits prod.splits)
  then show ?thesis
  proof
    assume "st' = st" then show ?thesis by simp
  next
    assume "\<exists>uid user. reassign e uid user (get_prop data ''manager_id'') st = (r, st')"
    then obtain uid user where "reassign e uid user (get_prop data ''manager_id'') st = (r, st')"
      by blast
    then have "st' = snd (reassign e uid user (get_prop data ''manager_id'') st)" by simp
    then show ?thesis by (simp only: reassign_keeps_rows)
  qed
next
  case False
  with mgr have none: "get_prop data ''manager_id'' = None" by simp
  have "st' = st \<or> (\<exists>vd uid rows n. validateUpdate data = Inr (UValid vd) \<and>
      update_users (map (\<lambda>(key, v). (key, bind_param e (Some v))) vd @ [(''updated_at'', SText (now e))])
        [ColEq ''user_id'' uid] (users st) = Inr (rows, n) \<and> st' = st\<lparr>users := rows\<rparr>)"
    using run ids one data False
    by (auto simp: updateUser_def Let_def
        split: option.splits sum.splits update_validation.splits if_splits prod.splits)
  then show ?thesis
  proof
    assume "st' = st" then show ?thesis by simp
  next
    assume "\<exists>vd uid rows n. validateUpdate data = Inr (UValid vd) \<and>
      update_users (map (\<lambda>(key, v). (key, bind_param e (Some v))) vd @ [(''updated_at'', SText (now e))])
        [ColEq ''user_id'' uid] (users st) = Inr (rows, n) \<and> st' = st\<lparr>users := rows\<rparr>"
    then obtain vd uid rows n where v: "validateUpdate data = Inr (UValid vd)"
      and u: "update_users (map (\<lambda>(key, v). (key, bind_param e (Some v))) vd @ [(''updated_at'', SText (now e))])
        [ColEq ''user_id'' uid] (users st) = Inr (rows, n)" and s: "st' = st\<lparr>users := rows\<rparr>"
      by blast
    from validateUpdate_manager_key[OF v none] have "''manager_id'' \<notin> set (keys vd)" .
    from update_users_keeps_managers[OF u fields_no_manager[OF this]] update_users_keeps_ids[OF u]
    have "map manager_id rows = map manager_id (users st)" "map user_id rows = map user_id (users st)"
      by auto
    then have "length rows = length (users st)"
      "map (\<lambda>u. (user_id u, manager_id u)) rows =
       map (\<lambda>u. (user_id u, manager_id u)) (users st)"
      by (simp_all add: map_pair_zip) (metis length_map)+
    with s show ?thesis by simp
  qed
qed


theorem single_update_keeps_manager_ids_witness:
  "updateUser env2 reassign_body asha_store =
     Inr (InternalError, seed_store\<lparr>users := [asha\<lparr>is_active := 0, updated_at := ''t1''\<rparr>]\<rparr>) \<and>
   map (\<lambda>u. (user_id u, manager_id u))
     (take (length (users asha_store))
        (users (seed_store\<lparr>users := [asha\<lparr>is_active := 0, updated_at := ''t1''\<rparr>]\<rparr>))) =
   [(''u-1'', ''m-a'')]"
proof -
  have h1: "updateUser env2 reassign_body asha_store =
     Inr (InternalError, seed_store\<lparr>users := [asha\<lparr>is_active := 0, updated_at := ''t1''\<rparr>]\<rparr>)"
    by (rule updateUser_reassign_asha)
  have h2: "user_ids reassign_body = Some [JStr ''u-1'']"
    by (simp add: reassign_body_def)
  have h3: "length [JStr ''u-1''] \<le> 1" by simp
  have h4: "update_data reassign_body = Some [(''manager_id'', JStr ''m-b'')]"
    by (simp add: reassign_body_def)
  have h5: "get_prop [(''manager_id'', JStr ''m-b'')] ''manager_id'' = None \<or>
      truthy (get_prop [(''manager_id'', JStr ''m-b'')] ''manager_id'')"
    by (simp add: get_prop_def)
  have "map (\<lambda>u. (user_id u, manager_id u))
     (take (length (users asha_store))
        (users (seed_store\<lparr>users := [asha\<lparr>is_active := 0, updated_at := ''t1''\<rparr>]\<rparr>))) =
     map (\<lambda>u. (user_id u, manager_id u)) (users asha_store)"
    by (rule single_update_keeps_manager_ids[OF h1 h2 h3 h4 h5])
  also have "\<dots> = [(''u-1'', ''m-a'')]"
    by (simp add: asha_store_def asha_def)
  finally show ?thesis using h1 by simp
qed

section \<open>Claim C4: the bulk reassignment\<close>



section \<open>Claim C5: several targets and a payload other than \<open>manager_id\<close>\<close>

text \<open>
  C5. The update orchestrator works on a payload that validation has accepted. For
  every update request with more than one target id whose validated payload is not
  the single field \<open>manager_id\<close>, the operation fails with
  \<open>UnsupportedBulkOperation\<close> (400, "Individual updates can only be performed on a
  single user.") and the store is left as it was.
\<close>

theorem multi_id_other_payload:
  assumes ids: "user_ids body = Some ids" and many: "1 < length ids"
    and data: "update_data body = Some data"
    and valid: "validateUpdate data = Inr (UValid checked)"
    and other: "keys data \<noteq> [''manager_id'']"
  shows "updateUser e body st = Inr (BulkNotAllowed, st) \<and> status_of BulkNotAllowed = 400"
proof -
  from other single_key_manager[of data]
  have nb: "\<not> (length (keys data) = 1 \<and> truthy (get_prop data ''manager_id''))" by blast
  have "updateUser e body st = Inr (BulkNotAllowed, st)"
    using ids many data nb valid validateUpdate_valid_keys[OF valid]
    by (auto simp: updateUser_def Let_def)
  then show ?thesis by simp
qed

theorem multi_id_other_payload_witness:
  "user_ids rename_two_body = Some [JStr ''u-1'', JStr ''u-2''] \<and>
   1 < length [JStr ''u-1'', JStr ''u-2''] \<and>
   update_data rename_two_body = Some [(''full_name'', JStr ''Asha R'')] \<and>
   validateUpdate [(''full_name'', JStr ''Asha R'')] =
     Inr (UValid [(''full_name'', JStr ''Asha R'')]) \<and>
   keys [(''full_name'', JStr ''Asha R'')] \<noteq> [''manager_id''] \<and>
   updateUser env2 rename_two_body two_users = Inr (BulkNotAllowed, two_users) \<and>
   status_of BulkNotAllowed = 400"
proof -
  have h1: "user_ids rename_two_body = Some [JStr ''u-1'', JStr ''u-2'']"
    by (simp add: rename_two_body_def)
  have h2: "1 < length [JStr ''u-1'', JStr ''u-2'']" by simp
  have h3: "update_data rename_two_body = Some [(''full_name'', JStr ''Asha R'')]"
    by (simp add: rename_two_body_def)
  have h4: "validateUpdate [(''full_name'', JStr ''Asha R'')] =
     Inr (UValid [(''full_name'', JStr ''Asha R'')])"
    by (rule validateUpdate_rename)
  have h5: "keys [(''full_name'', JStr ''Asha R'')] \<noteq> [''manager_id'']"
    by (simp add: keys_def)
  from multi_id_other_payload[OF h1 h2 h3 h4 h5, of env2 two_users] h1 h2 h3 h4 h5
  show ?thesis by simp
qed

section \<open>Claim C6: create-validation and the values \<open>createUser\<close> stores\<close>

text \<open>
  C6. For all string inputs, \<open>validateUser\<close> fails exactly when
  \<^item> \<open>full_name\<close> is empty or made of white space only (every code unit of it is one
    that \<open>trim\<close> strips), or
  \<^item> the digits 0 to 9 of \<open>mob_num\<close>, cut to the last ten, are not ten characters, or
  \<^item> the uppercased \<open>pan_num\<close> is not five letters A to Z, four digits and one letter
    A to Z.
  On success it returns the digits of \<open>mob_num\<close> cut to the last ten and the
  uppercased \<open>pan_num\<close>. On a \<open>pan_num\<close> of ASCII characters, uppercasing replaces
  the letters a to z by A to Z and nothing else; it writes SS for sharp s, I for
  dotless i, S for long s and FF, FI, FL, FFI, FFL, ST, ST for the ligatures U+FB00 to
  U+FB06. Whenever \<open>createUser\<close> answers with
  success on a body holding these strings, the one row it adds holds exactly these two
  normalized values.
\<close>

theorem create_validation_normalizes:
  "(let digits = filter (\<lambda>c. c \<in> set ''0123456789'') m;
        M = drop (length digits - 10) digits;
        P = toUpperCase p;
        blank = (set (units f) \<subseteq>
                   {9, 10, 11, 12, 13, 32, 160, 5760, 8192, 8193, 8194, 8195, 8196, 8197, 8198,
                    8199, 8200, 8201, 8202, 8232, 8233, 8239, 8287, 12288, 65279});
        pattern = (length P = 10 \<and> set (take 5 P) \<subseteq> set ''ABCDEFGHIJKLMNOPQRSTUVWXYZ'' \<and>
                   set (take 4 (drop 5 P)) \<subseteq> set ''0123456789'' \<and>
                   set (drop 9 P) \<subseteq> set ''ABCDEFGHIJKLMNOPQRSTUVWXYZ'')
    in ((\<exists>msg. validateUser (Some (JStr f)) (Some (JStr m)) (Some (JStr p)) =
                  Inr (Invalid msg)) \<longleftrightarrow>
          (blank \<or> length M \<noteq> 10 \<or> \<not> pattern)) \<and>
       (validateUser (Some (JStr f)) (Some (JStr m)) (Some (JStr p)) = Inr (Valid M P) \<longleftrightarrow>
          \<not> (blank \<or> length M \<noteq> 10 \<or> \<not> pattern)) \<and>
       (list_all (\<lambda>c. of_char c < (128::nat)) p \<longrightarrow>
          P = map (\<lambda>c. if 97 \<le> (of_char c :: nat) \<and> (of_char c :: nat) \<le> 122
                        then char_of ((of_char c :: nat) - 32) else c) p) \<and>
       map toUpperCase
         [[CHR 0xC3, CHR 0x9F], [CHR 0xC4, CHR 0xB1], [CHR 0xC5, CHR 0xBF],
          [CHR 0xEF, CHR 0xAC, CHR 0x80], [CHR 0xEF, CHR 0xAC, CHR 0x81],
          [CHR 0xEF, CHR 0xAC, CHR 0x82], [CHR 0xEF, CHR 0xAC, CHR 0x83],
          [CHR 0xEF, CHR 0xAC, CHR 0x84], [CHR 0xEF, CHR 0xAC, CHR 0x85],
          [CHR 0xEF, CHR 0xAC, CHR 0x86]] =
         [''SS'', ''I'', ''S'', ''FF'', ''FI'', ''FL'', ''FFI'', ''FFL'', ''ST'', ''ST''] \<and>
       (\<forall>e body st uid st'.
          get_prop body ''full_name'' = Some (JStr f) \<and>
          get_prop body ''mob_num'' = Some (JStr m) \<and>
          get_prop body ''pan_num'' = Some (JStr p) \<and>
          createUser e body st = Inr (Created uid, st') \<longrightarrow>
          length M = 10 \<and> pattern \<and>
          (\<exists>g. users st' = users st @
             [\<lparr>user_id = uid, full_name = f, mob_num = M, pan_num = P,
               manager_id = g, created_at = now e, updated_at = now e, is_active = 1\<rparr>])))"
proof -
  let ?v = "validateUser (Some (JStr f)) (Some (JStr m)) (Some (JStr p))"
  let ?bad = "list_all is_space (units f) \<or> length (format_mob m) \<noteq> 10 \<or>
      \<not> panRegex_test (toUpperCase p)"
  have a: "(\<exists>msg. ?v = Inr (Invalid msg)) \<longleftrightarrow> ?bad"
    by (simp add: validateUser_strings)
  have b: "?v = Inr (Valid (format_mob m) (toUpperCase p)) \<longleftrightarrow> \<not> ?bad"
    by (simp add: validateUser_strings)
  have c: "list_all (\<lambda>c. of_char c < (128::nat)) p \<longrightarrow>
          toUpperCase p = map (\<lambda>c. if 97 \<le> (of_char c :: nat) \<and> (of_char c :: nat) \<le> 122
                        then char_of ((of_char c :: nat) - 32) else c) p"
    using toUpperCase_ascii[of p] by blast
  have d: "length (format_mob m) = 10 \<and> panRegex_test (toUpperCase p) \<and>
      (\<exists>g. users st' = users st @
         [\<lparr>user_id = uid, full_name = f, mob_num = format_mob m, pan_num = toUpperCase p,
           manager_id = g, created_at = now e, updated_at = now e, is_active = 1\<rparr>])"
    if h: "get_prop body ''full_name'' = Some (JStr f) \<and>
      get_prop body ''mob_num'' = Some (JStr m) \<and>
      get_prop body ''pan_num'' = Some (JStr p) \<and>
      createUser e body st = Inr (Created uid, st')"
    for e body st uid st'
  proof -
    from h have run: "createUser e body st = Inr (Created uid, st')" by simp
    from createUser_Created[OF run] h
    have v: "?v = Inr (Valid (format_mob m) (toUpperCase p))"
      and s: "\<exists>g. uid = uuid e \<and> st' = st\<lparr>users := users st @
             [\<lparr>user_id = uuid e, full_name = f, mob_num = format_mob m,
               pan_num = toUpperCase p, manager_id = g, created_at = now e,
               updated_at = now e, is_active = 1\<rparr>]\<rparr>"
      by auto
    from v b have "\<not> ?bad" by simp
    moreover from s have "\<exists>g. users st' = users st @
         [\<lparr>user_id = uid, full_name = f, mob_num = format_mob m, pan_num = toUpperCase p,
           manager_id = g, created_at = now e, updated_at = now e, is_active = 1\<rparr>]"
      by auto
    ultimately show ?thesis by simp
  qed
  from d have d': "\<forall>e body st uid st'.
      get_prop body ''full_name'' = Some (JStr f) \<and>
      get_prop body ''mob_num'' = Some (JStr m) \<and>
      get_prop body ''pan_num'' = Some (JStr p) \<and>
      createUser e body st = Inr (Created uid, st') \<longrightarrow>
      length (format_mob m) = 10 \<and> panRegex_test (toUpperCase p) \<and>
      (\<exists>g. users st' = users st @
         [\<lparr>user_id = uid, full_name = f, mob_num = format_mob m, pan_num = toUpperCase p,
           manager_id = g, created_at = now e, updated_at = now e, is_active = 1\<rparr>])"
    by blast
  have s: "map toUpperCase
         [[CHR 0xC3, CHR 0x9F], [CHR 0xC4, CHR 0xB1], [CHR 0xC5, CHR 0xBF],
          [CHR 0xEF, CHR 0xAC, CHR 0x80], [CHR 0xEF, CHR 0xAC, CHR 0x81],
          [CHR 0xEF, CHR 0xAC, CHR 0x82], [CHR 0xEF, CHR 0xAC, CHR 0x83],
          [CHR 0xEF, CHR 0xAC, CHR 0x84], [CHR 0xEF, CHR 0xAC, CHR 0x85],
          [CHR 0xEF, CHR 0xAC, CHR 0x86]] =
         [''SS'', ''I'', ''S'', ''FF'', ''FI'', ''FL'', ''FFI'', ''FFL'', ''ST'', ''ST'']"
    by (simp add: upper_eval)
  show ?thesis
    unfolding Let_def format_mob_explicit[symmetric] is_space_set[symmetric]
      panRegex_test_set[symmetric]
    apply (intro conjI)
        apply (rule a)
       apply (rule b)
      apply (rule c)
     apply (rule s)
    apply (rule d')
    done
qed

theorem create_validation_normalizes_witness:
  "validateUser (Some (JStr ''Asha Rao'')) (Some (JStr ''+91-98765-43210''))
       (Some (JStr ''abcde1234f'')) = Inr (Valid ''9876543210'' ''ABCDE1234F'') \<and>
   (\<exists>msg. validateUser (Some (JStr [CHR 0xC2, CHR 0xA0])) (Some (JStr ''+91-98765-43210''))
       (Some (JStr ''abcde1234f'')) = Inr (Invalid msg)) \<and>
   (\<exists>msg. validateUser (Some (JStr ''Asha Rao'')) (Some (JStr ''98765-4321''))
       (Some (JStr ''abcde1234f'')) = Inr (Invalid msg)) \<and>
   validateUser (Some (JStr ''Asha Rao'')) (Some (JStr ''+91-98765-43210''))
       (Some (JStr (''abcd'' @ [CHR 0xC4, CHR 0xB1] @ ''1234f''))) =
     Inr (Valid ''9876543210'' ''ABCDI1234F'') \<and>
   validateUser (Some (JStr ''Asha Rao'')) (Some (JStr ''+91-98765-43210''))
       (Some (JStr (''abc'' @ [CHR 0xC3, CHR 0x9F] @ ''1234f''))) =
     Inr (Valid ''9876543210'' ''ABCSS1234F'') \<and>
   (\<exists>msg. validateUser (Some (JStr ''Asha Rao'')) (Some (JStr ''+91-98765-43210''))
       (Some (JStr (''abcd'' @ [CHR 0xC3, CHR 0xA9] @ ''1234f''))) = Inr (Invalid msg)) \<and>
   createUser env1 asha_body seed_store = Inr (Created ''u-1'', seed_store\<lparr>users := [asha]\<rparr>) \<and>
   mob_num (last (users (seed_store\<lparr>users := [asha]\<rparr>))) = ''9876543210'' \<and>
   pan_num (last (users (seed_store\<lparr>users := [asha]\<rparr>))) = ''ABCDE1234F''"
proof -
  have name: "units ''Asha Rao'' = [65, 115, 104, 97, 32, 82, 97, 111]"
    by (simp add: units_eval)
  have d12: "filter (\<lambda>c. c \<in> set ''0123456789'') ''+91-98765-43210'' = ''919876543210''"
    by simp
  have d9: "filter (\<lambda>c. c \<in> set ''0123456789'') ''98765-4321'' = ''987654321''"
    by simp
  note up = toUpperCase_example toUpperCase_dotless_i toUpperCase_sharp_s toUpperCase_e_acute
  note ev = Let_def name units_no_break_space d12 d9 up
  note t1 = create_validation_normalizes
    [of "''+91-98765-43210''" "''abcde1234f''" "''Asha Rao''", unfolded ev]
  note t2 = create_validation_normalizes
    [of "''+91-98765-43210''" "''abcde1234f''" "[CHR 0xC2, CHR 0xA0]", unfolded ev]
  note t3 = create_validation_normalizes
    [of "''98765-4321''" "''abcde1234f''" "''Asha Rao''", unfolded ev]
  note t4 = create_validation_normalizes
    [of "''+91-98765-43210''" "''abcd'' @ [CHR 0xC4, CHR 0xB1] @ ''1234f''" "''Asha Rao''", unfolded ev]
  note t5 = create_validation_normalizes
    [of "''+91-98765-43210''" "''abc'' @ [CHR 0xC3, CHR 0x9F] @ ''1234f''" "''Asha Rao''", unfolded ev]
  note t6 = create_validation_normalizes
    [of "''+91-98765-43210''" "''abcd'' @ [CHR 0xC3, CHR 0xA9] @ ''1234f''" "''Asha Rao''", unfolded ev]
  have 1: "validateUser (Some (JStr ''Asha Rao'')) (Some (JStr ''+91-98765-43210''))
       (Some (JStr ''abcde1234f'')) =
     Inr (Valid ''9876543210'' ''ABCDE1234F'')"
    using t1[THEN conjunct2, THEN conjunct1] by simp
  have 2: "\<exists>msg. validateUser (Some (JStr [CHR 0xC2, CHR 0xA0])) (Some (JStr ''+91-98765-43210''))
       (Some (JStr ''abcde1234f'')) = Inr (Invalid msg)"
    using t2[THEN conjunct1] by simp
  have 3: "\<exists>msg. validateUser (Some (JStr ''Asha Rao'')) (Some (JStr ''98765-4321''))
       (Some (JStr ''abcde1234f'')) = Inr (Invalid msg)"
    using t3[THEN conjunct1] by simp
  have 4: "validateUser (Some (JStr ''Asha Rao'')) (Some (JStr ''+91-98765-43210''))
       (Some (JStr (''abcd'' @ [CHR 0xC4, CHR 0xB1] @ ''1234f''))) =
     Inr (Valid ''9876543210'' ''ABCDI1234F'')"
    using t4[THEN conjunct2, THEN conjunct1] by simp
  have 5: "validateUser (Some (JStr ''Asha Rao'')) (Some (JStr ''+91-98765-43210''))
       (Some (JStr (''abc'' @ [CHR 0xC3, CHR 0x9F] @ ''1234f''))) =
     Inr (Valid ''9876543210'' ''ABCSS1234F'')"
    using t5[THEN conjunct2, THEN conjunct1] by simp
  have 6: "\<exists>msg. validateUser (Some (JStr ''Asha Rao'')) (Some (JStr ''+91-98765-43210''))
       (Some (JStr (''abcd'' @ [CHR 0xC3, CHR 0xA9] @ ''1234f''))) = Inr (Invalid msg)"
    using t6[THEN conjunct1] by simp
  have g: "get_prop asha_body ''full_name'' = Some (JStr ''Asha Rao'') \<and>
      get_prop asha_body ''mob_num'' = Some (JStr ''+91-98765-43210'') \<and>
      get_prop asha_body ''pan_num'' = Some (JStr ''abcde1234f'')"
    by (simp add: get_prop_def asha_body_def)
  from t1[THEN conjunct2, THEN conjunct2, THEN conjunct2, THEN conjunct2] g createUser_asha
  have "\<exists>g. users (seed_store\<lparr>users := [asha]\<rparr>) = users seed_store @
         [\<lparr>user_id = ''u-1'', full_name = ''Asha Rao'',
           mob_num = drop (length ''919876543210'' - 10) ''919876543210'',
           pan_num = ''ABCDE1234F'', manager_id = g, created_at = now env1,
           updated_at = now env1, is_active = 1\<rparr>]"
    by blast
  then have 7: "mob_num (last (users (seed_store\<lparr>users := [asha]\<rparr>))) = ''9876543210'' \<and>
      pan_num (last (users (seed_store\<lparr>users := [asha]\<rparr>))) = ''ABCDE1234F''"
    by (auto simp: asha_def)
  from 1 2 3 4 5 6 7 createUser_asha show ?thesis by simp
qed

section \<open>Claim C7: \<open>deleteUser\<close>\<close>

text \<open>
  C7. \<open>deleteUser\<close> fails with a validation error (400) when neither \<open>user_id\<close> nor
  \<open>mob_num\<close> is supplied (absent or falsy). With a \<open>user_id\<close> it deletes the rows of
  that id. With a \<open>mob_num\<close> string alone it first normalizes it, deleting every
  character that is not a digit 0 to 9 and keeping the last ten of what is left, and
  deletes the rows whose \<open>mob_num\<close> equals the result. In both cases it answers
  \<open>NotFound\<close> (404) exactly when no row was deleted, and success (200) otherwise. A
  \<open>mob_num\<close> alone that is truthy and not a string cannot be normalized: the handler
  throws.
\<close>

theorem deleteUser_contract:
  "(\<not> truthy (get_prop body ''user_id'') \<and> \<not> truthy (get_prop body ''mob_num'') \<longrightarrow>
      deleteUser e body st = Inr (MissingKeys [''user_id or mob_num''], st) \<and>
      status_of (MissingKeys [''user_id or mob_num'']) = 400) \<and>
   (truthy (get_prop body ''user_id'') \<longrightarrow>
      deleteUser e body st =
       (if filter (\<lambda>u. bind_param e (get_prop body ''user_id'') = SText (user_id u)) (users st) = []
        then Inr (NotFound, st)
        else Inr (Deleted, st\<lparr>users :=
               filter (\<lambda>u. bind_param e (get_prop body ''user_id'') \<noteq> SText (user_id u))
                 (users st)\<rparr>))) \<and>
   (\<forall>i. get_prop body ''user_id'' = Some (JStr i) \<and> i \<noteq> [] \<longrightarrow>
      deleteUser e body st =
       (if filter (\<lambda>u. user_id u = i) (users st) = []
        then Inr (NotFound, st)
        else Inr (Deleted, st\<lparr>users := filter (\<lambda>u. user_id u \<noteq> i) (users st)\<rparr>))) \<and>
   (\<forall>m. \<not> truthy (get_prop body ''user_id'') \<and> get_prop body ''mob_num'' = Some (JStr m) \<and>
        m \<noteq> [] \<longrightarrow>
      deleteUser e body st =
       (let digits = filter (\<lambda>c. c \<in> set ''0123456789'') m;
            M = drop (length digits - 10) digits
        in if filter (\<lambda>u. mob_num u = M) (users st) = []
           then Inr (NotFound, st)
           else Inr (Deleted, st\<lparr>users := filter (\<lambda>u. mob_num u \<noteq> M) (users st)\<rparr>))) \<and>
   (\<not> truthy (get_prop body ''user_id'') \<and> truthy (get_prop body ''mob_num'') \<and>
    (\<forall>m. get_prop body ''mob_num'' \<noteq> Some (JStr m)) \<longrightarrow>
      deleteUser e body st = Inl TypeError) \<and>
   status_of NotFound = 404 \<and> status_of Deleted = 200"
  unfolding Let_def format_mob_explicit[symmetric]
  using deleteUser_by_id[of body e st] deleteUser_by_mob[of body _ e st]
    deleteUser_by_string_id[of body _ e st] deleteUser_non_string_mob[of body e st]
  by (auto simp: deleteUser_def)

theorem deleteUser_contract_witness:
  "deleteUser env1 [] two_users = Inr (MissingKeys [''user_id or mob_num''], two_users) \<and>
   deleteUser env1 delete_unknown_body two_users = Inr (NotFound, two_users) \<and>
   deleteUser env1 delete_ravi_body two_users = Inr (Deleted, two_users\<lparr>users := [asha]\<rparr>) \<and>
   deleteUser env1 plus91_mob_body two_users = Inr (Deleted, two_users\<lparr>users := [ravi]\<rparr>) \<and>
   deleteUser env1 suffix_mob_body two_users = Inr (NotFound, two_users) \<and>
   deleteUser env1 number_only_mob_body two_users = Inl TypeError"
proof -
  note bodies = get_prop_def delete_unknown_body_def delete_ravi_body_def plus91_mob_body_def
    suffix_mob_body_def number_only_mob_body_def
  note rows = two_users_def asha_def ravi_def
  have 1: "deleteUser env1 [] two_users = Inr (MissingKeys [''user_id or mob_num''], two_users)"
    using deleteUser_contract[of "[]" env1 two_users, THEN conjunct1]
    by (simp add: bodies)
  have 2: "deleteUser env1 delete_unknown_body two_users = Inr (NotFound, two_users)"
    using deleteUser_contract[of delete_unknown_body env1 two_users,
        THEN conjunct2, THEN conjunct2, THEN conjunct1]
    by (simp add: bodies rows)
  have 3: "deleteUser env1 delete_ravi_body two_users =
      Inr (Deleted, two_users\<lparr>users := [asha]\<rparr>)"
    using deleteUser_contract[of delete_ravi_body env1 two_users,
        THEN conjunct2, THEN conjunct2, THEN conjunct1]
    by (simp add: bodies rows)
  have 4: "deleteUser env1 plus91_mob_body two_users =
      Inr (Deleted, two_users\<lparr>users := [ravi]\<rparr>)"
    using deleteUser_contract[of plus91_mob_body env1 two_users,
        THEN conjunct2, THEN conjunct2, THEN conjunct2, THEN conjunct1]
    by (simp add: bodies rows Let_def)
  have 5: "deleteUser env1 suffix_mob_body two_users = Inr (NotFound, two_users)"
    using deleteUser_contract[of suffix_mob_body env1 two_users,
        THEN conjunct2, THEN conjunct2, THEN conjunct2, THEN conjunct1]
    by (simp add: bodies rows Let_def)
  have 6: "deleteUser env1 number_only_mob_body two_users = Inl TypeError"
    using deleteUser_contract[of number_only_mob_body env1 two_users,
        THEN conjunct2, THEN conjunct2, THEN conjunct2, THEN conjunct2, THEN conjunct1]
    by (simp add: bodies)
  from 1 2 3 4 5 6 show ?thesis by simp
qed

section \<open>Claim C8: \<open>getUsers\<close>\<close>

text \<open>
  C8. \<open>getUsers\<close> returns active users only. A filter is supplied when its value is
  truthy. The rows returned are the rows with \<open>is_active = 1\<close> that match every filter
  supplied: \<open>user_id\<close> and \<open>manager_id\<close> by equality with the value (with the string,
  when the value is a string; with what the driver binds, otherwise), \<open>mob_num\<close> by
  ending in the filter normalized, that is, stripped of every character that is not
  a digit 0 to 9 and cut to its last ten. With no filter, the rows returned are all
  the active rows. A \<open>mob_num\<close> filter that is truthy and not a string cannot be
  normalized: the handler throws.
\<close>

theorem getUsers_active_matching:
  "(let uid = get_prop body ''user_id''; mob = get_prop body ''mob_num'';
        mgr = get_prop body ''manager_id''
    in ((\<not> truthy mob \<or> (\<exists>m. mob = Some (JStr m))) \<longrightarrow>
          getUsers e body st =
            Inr (UsersList
                   (filter
                      (\<lambda>u. is_active u = 1 \<and>
                         ((\<forall>i. uid = Some (JStr i) \<and> i \<noteq> [] \<longrightarrow> user_id u = i) \<and>
                          (truthy uid \<and> (\<forall>i. uid \<noteq> Some (JStr i)) \<longrightarrow>
                             bind_param e uid = SText (user_id u))) \<and>
                         (\<forall>m. mob = Some (JStr m) \<and> m \<noteq> [] \<longrightarrow>
                            (\<exists>pre. mob_num u =
                               pre @ drop (length (filter (\<lambda>c. c \<in> set ''0123456789'') m) - 10)
                                       (filter (\<lambda>c. c \<in> set ''0123456789'') m))) \<and>
                         ((\<forall>g. mgr = Some (JStr g) \<and> g \<noteq> [] \<longrightarrow> manager_id u = g) \<and>
                          (truthy mgr \<and> (\<forall>g. mgr \<noteq> Some (JStr g)) \<longrightarrow>
                             bind_param e mgr = SText (manager_id u))))
                      (users st)), st)) \<and>
       (truthy mob \<and> (\<forall>m. mob \<noteq> Some (JStr m)) \<longrightarrow> getUsers e body st = Inl TypeError) \<and>
       (\<not> truthy uid \<and> \<not> truthy mob \<and> \<not> truthy mgr \<longrightarrow>
          getUsers e body st = Inr (UsersList (filter (\<lambda>u. is_active u = 1) (users st)), st)))"
proof -
  have a: "getUsers e body st =
     Inr (UsersList
            (filter (\<lambda>u. is_active u = 1 \<and>
                       (truthy (get_prop body ''user_id'') \<longrightarrow>
                          bind_param e (get_prop body ''user_id'') = SText (user_id u)) \<and>
                       (\<forall>m. get_prop body ''mob_num'' = Some (JStr m) \<and> m \<noteq> [] \<longrightarrow>
                          ends_with (format_mob m) (mob_num u)) \<and>
                       (truthy (get_prop body ''manager_id'') \<longrightarrow>
                          bind_param e (get_prop body ''manager_id'') = SText (manager_id u)))
               (users st)), st)"
    if "\<not> truthy (get_prop body ''mob_num'') \<or> (\<exists>m. get_prop body ''mob_num'' = Some (JStr m))"
    using that by (rule getUsers_general)
  have b: "getUsers e body st = Inl TypeError"
    if "truthy (get_prop body ''mob_num'') \<and> (\<forall>m. get_prop body ''mob_num'' \<noteq> Some (JStr m))"
    using that getUsers_non_string_mob[of body e st] by blast
  have c: "getUsers e body st = Inr (UsersList (filter (\<lambda>u. is_active u = 1) (users st)), st)"
    if "\<not> truthy (get_prop body ''user_id'') \<and> \<not> truthy (get_prop body ''mob_num'') \<and>
        \<not> truthy (get_prop body ''manager_id'')"
    using that by (auto simp: getUsers_def Let_def select_all_def where_all_def col_simps
        intro!: filter_cong)
  show ?thesis
    unfolding Let_def format_mob_explicit[symmetric] ends_with_iff[symmetric]
      bind_eq_cases[symmetric]
    using a b c by blast
qed

theorem getUsers_active_matching_witness:
  "users two_users = [asha, ravi] \<and> manager_id ravi = ''m-a'' \<and> is_active ravi = 0 \<and>
   getUsers env1 [] two_users = Inr (UsersList [asha], two_users) \<and>
   getUsers env1 by_manager_body two_users = Inr (UsersList [asha], two_users) \<and>
   getUsers env1 by_user_body two_users = Inr (UsersList [asha], two_users) \<and>
   getUsers env1 delete_ravi_body two_users = Inr (UsersList [], two_users) \<and>
   getUsers env1 plus91_mob_body two_users = Inr (UsersList [asha], two_users) \<and>
   getUsers env1 suffix_mob_body two_users = Inr (UsersList [asha], two_users) \<and>
   getUsers env1 number_only_mob_body two_users = Inl TypeError"
proof -
  note bodies = get_prop_def by_manager_body_def by_user_body_def delete_ravi_body_def
    plus91_mob_body_def suffix_mob_body_def number_only_mob_body_def
  note rows = two_users_def asha_def ravi_def
  note ev = Let_def ends_with_iff[symmetric] ends_with_def
  have 1: "getUsers env1 [] two_users = Inr (UsersList [asha], two_users)"
    using getUsers_active_matching[of "[]" env1 two_users, unfolded Let_def,
        THEN conjunct2, THEN conjunct2]
    by (simp add: bodies rows)
  have 2: "getUsers env1 by_manager_body two_users = Inr (UsersList [asha], two_users)"
    using getUsers_active_matching[of by_manager_body env1 two_users, unfolded Let_def,
        THEN conjunct1]
    by (simp add: bodies rows)
  have 3: "getUsers env1 by_user_body two_users = Inr (UsersList [asha], two_users)"
    using getUsers_active_matching[of by_user_body env1 two_users, unfolded Let_def,
        THEN conjunct1]
    by (simp add: bodies rows)
  have 4: "getUsers env1 delete_ravi_body two_users = Inr (UsersList [], two_users)"
    using getUsers_active_matching[of delete_ravi_body env1 two_users, unfolded Let_def,
        THEN conjunct1]
    by (simp add: bodies rows)
  have 5: "getUsers env1 plus91_mob_body two_users = Inr (UsersList [asha], two_users)"
    using getUsers_active_matching[of plus91_mob_body env1 two_users, unfolded Let_def,
        THEN conjunct1]
    by (simp add: bodies rows ev)
  have 6: "getUsers env1 suffix_mob_body two_users = Inr (UsersList [asha], two_users)"
    using getUsers_active_matching[of suffix_mob_body env1 two_users, unfolded Let_def,
        THEN conjunct1]
    by (simp add: bodies rows ev)
  have 7: "getUsers env1 number_only_mob_body two_users = Inl TypeError"
    using getUsers_active_matching[of number_only_mob_body env1 two_users, unfolded Let_def,
        THEN conjunct2, THEN conjunct1]
    by (simp add: bodies)
  from 1 2 3 4 5 6 7 show ?thesis by (simp add: rows)
qed

section \<open>Claim C9: values of \<open>mob_num\<close> and \<open>pan_num\<close> that are not strings\<close>




section \<open>Claim C10: \<open>deleteUser\<close> and the active flag\<close>

text \<open>
  C10. \<open>deleteUser\<close> does not look at \<open>is_active\<close>. For every row of the store,
  active or not: a delete request with the row's \<open>user_id\<close>, or with no \<open>user_id\<close>
  and a \<open>mob_num\<close> that normalizes to the row's, answers with success and removes the
  row from the table. A row that was deactivated is erased, not kept.
\<close>

theorem deleteUser_ignores_active:
  assumes "r \<in> set (users st)"
  shows "(user_id r \<noteq> [] \<and> get_prop body ''user_id'' = Some (JStr (user_id r)) \<longrightarrow>
           deleteUser e body st =
             Inr (Deleted, st\<lparr>users := filter (\<lambda>u. user_id u \<noteq> user_id r) (users st)\<rparr>) \<and>
           r \<notin> set (filter (\<lambda>u. user_id u \<noteq> user_id r) (users st))) \<and>
         (\<forall>m. \<not> truthy (get_prop body ''user_id'') \<and> get_prop body ''mob_num'' = Some (JStr m) \<and>
              m \<noteq> [] \<and> format_mob m = mob_num r \<longrightarrow>
           deleteUser e body st =
             Inr (Deleted, st\<lparr>users := filter (\<lambda>u. mob_num u \<noteq> mob_num r) (users st)\<rparr>) \<and>
           r \<notin> set (filter (\<lambda>u. mob_num u \<noteq> mob_num r) (users st)))"
proof -
  have a: "deleteUser e body st =
             Inr (Deleted, st\<lparr>users := filter (\<lambda>u. user_id u \<noteq> user_id r) (users st)\<rparr>)"
    if h: "user_id r \<noteq> []" "get_prop body ''user_id'' = Some (JStr (user_id r))"
  proof -
    have "filter (\<lambda>u. user_id u = user_id r) (users st) \<noteq> []"
      using assms by (auto simp: filter_empty_conv)
    then show ?thesis using h
      by (simp add: deleteUser_def delete_users_def where_eq_user_id_text Let_def)
  qed
  have b: "deleteUser e body st =
             Inr (Deleted, st\<lparr>users := filter (\<lambda>u. mob_num u \<noteq> mob_num r) (users st)\<rparr>)"
    if h: "\<not> truthy (get_prop body ''user_id'')" "get_prop body ''mob_num'' = Some (JStr m)"
       "m \<noteq> []" "format_mob m = mob_num r" for m
  proof -
    have "filter (\<lambda>u. mob_num u = mob_num r) (users st) \<noteq> []"
      using assms by (auto simp: filter_empty_conv)
    then show ?thesis using deleteUser_by_mob[OF h(1-3), of e st] h(4) by simp
  qed
  from a b show ?thesis by auto
qed

theorem deleteUser_ignores_active_witness:
  "ravi \<in> set (users two_users) \<and> is_active ravi = 0 \<and>
   deleteUser env1 delete_ravi_body two_users = Inr (Deleted, two_users\<lparr>users := [asha]\<rparr>) \<and>
   deleteUser env1 delete_ravi_by_mob_body two_users =
     Inr (Deleted, two_users\<lparr>users := [asha]\<rparr>)"
proof -
  have r: "ravi \<in> set (users two_users)" by (simp add: two_users_def)
  have a: "user_id ravi \<noteq> [] \<and> get_prop delete_ravi_body ''user_id'' = Some (JStr (user_id ravi))"
    by (simp add: get_prop_def delete_ravi_body_def ravi_def)
  have b: "\<not> truthy (get_prop delete_ravi_by_mob_body ''user_id'') \<and>
      get_prop delete_ravi_by_mob_body ''mob_num'' = Some (JStr ''(912) 345-6780'') \<and>
      ''(912) 345-6780'' \<noteq> [] \<and> format_mob ''(912) 345-6780'' = mob_num ravi"
    by (simp add: get_prop_def delete_ravi_by_mob_body_def format_mob_ravi ravi_def)
  from a deleteUser_ignores_active[OF r, of delete_ravi_body env1]
  have "deleteUser env1 delete_ravi_body two_users =
      Inr (Deleted, two_users\<lparr>users := filter (\<lambda>u. user_id u \<noteq> user_id ravi) (users two_users)\<rparr>)"
    by blast
  then have 1: "deleteUser env1 delete_ravi_body two_users =
      Inr (Deleted, two_users\<lparr>users := [asha]\<rparr>)"
    by (simp add: two_users_def asha_def ravi_def)
  from b deleteUser_ignores_active[OF r, of delete_ravi_by_mob_body env1]
  have "deleteUser env1 delete_ravi_by_mob_body two_users =
      Inr (Deleted, two_users\<lparr>users := filter (\<lambda>u. mob_num u \<noteq> mob_num ravi) (users two_users)\<rparr>)"
    by blast
  then have 2: "deleteUser env1 delete_ravi_by_mob_body two_users =
      Inr (Deleted, two_users\<lparr>users := [asha]\<rparr>)"
    by (simp add: two_users_def asha_def ravi_def)
  from r 1 2 show ?thesis by (simp add: ravi_def)
qed

end
